theory Spec2Isabelle
  imports Complex_Main
begin

section \<open>Waypoint generator of the local planner\<close>

text \<open>
  A shallow embedding of \<^verbatim>\<open>local_planner/src/nodes/waypoint_generator.cpp\<close>.
  The member variables of the C++ class \<^verbatim>\<open>WaypointGenerator\<close> form one record that
  every member function takes and returns; the trailing underscore of the C++ member
  names is dropped, and the member \<^verbatim>\<open>output_\<close> is the field \<open>output_wp\<close>.
  \<^verbatim>\<open>float\<close> and \<^verbatim>\<open>double\<close> values are read as real numbers, so
  rounding, overflow to infinity and not-a-number values are outside this reading; the
  two raw goal points that normalise a direction are embedded a second time over values
  that include NaN.
  \<^verbatim>\<open>ros::Time\<close> and \<^verbatim>\<open>ros::Duration\<close> are integer nanosecond counts, and \<^verbatim>\<open>int\<close>
  values (histogram indices and their differences) are integers: none of them comes
  near the limits of its machine type.
\<close>

subsection \<open>Vectors\<close>

datatype Vector3f = Vector3f (vx: real) (vy: real) (vz: real)

datatype Vector2f = Vector2f (ux: real) (uy: real)

text \<open>\<^verbatim>\<open>geometry_msgs::Point\<close> has the same three coordinates; \<^verbatim>\<open>toEigen\<close> and
  \<^verbatim>\<open>toPoint\<close> are the identity on them.\<close>

type_synonym Point = Vector3f

definition add3 :: "Vector3f \<Rightarrow> Vector3f \<Rightarrow> Vector3f" where
  "add3 a b = Vector3f (vx a + vx b) (vy a + vy b) (vz a + vz b)"

definition sub3 :: "Vector3f \<Rightarrow> Vector3f \<Rightarrow> Vector3f" where
  "sub3 a b = Vector3f (vx a - vx b) (vy a - vy b) (vz a - vz b)"

definition smul3 :: "real \<Rightarrow> Vector3f \<Rightarrow> Vector3f" where
  "smul3 c a = Vector3f (c * vx a) (c * vy a) (c * vz a)"

definition sdiv3 :: "Vector3f \<Rightarrow> real \<Rightarrow> Vector3f" where
  "sdiv3 a c = Vector3f (vx a / c) (vy a / c) (vz a / c)"

definition cwiseAbs :: "Vector3f \<Rightarrow> Vector3f" where
  "cwiseAbs a = Vector3f (abs (vx a)) (abs (vy a)) (abs (vz a))"

definition squaredNorm3 :: "Vector3f \<Rightarrow> real" where
  "squaredNorm3 a = vx a * vx a + vy a * vy a + vz a * vz a"

definition norm3 :: "Vector3f \<Rightarrow> real" where
  "norm3 a = sqrt (squaredNorm3 a)"

text \<open>Eigen's \<^verbatim>\<open>normalized()\<close> and \<^verbatim>\<open>normalize()\<close>, as documented for Eigen 3.3 and
  later: the vector divided by its norm, and the vector itself when its squared norm is
  not positive. The generator's own source has no such test around its calls.\<close>

definition normalized3 :: "Vector3f \<Rightarrow> Vector3f" where
  "normalized3 a = (let z = squaredNorm3 a in if z > 0 then sdiv3 a (sqrt z) else a)"

definition add2 :: "Vector2f \<Rightarrow> Vector2f \<Rightarrow> Vector2f" where
  "add2 a b = Vector2f (ux a + ux b) (uy a + uy b)"

definition sub2 :: "Vector2f \<Rightarrow> Vector2f \<Rightarrow> Vector2f" where
  "sub2 a b = Vector2f (ux a - ux b) (uy a - uy b)"

definition smul2 :: "real \<Rightarrow> Vector2f \<Rightarrow> Vector2f" where
  "smul2 c a = Vector2f (c * ux a) (c * uy a)"

definition sdiv2 :: "Vector2f \<Rightarrow> real \<Rightarrow> Vector2f" where
  "sdiv2 a c = Vector2f (ux a / c) (uy a / c)"

definition squaredNorm2 :: "Vector2f \<Rightarrow> real" where
  "squaredNorm2 a = ux a * ux a + uy a * uy a"

definition norm2 :: "Vector2f \<Rightarrow> real" where
  "norm2 a = sqrt (squaredNorm2 a)"

definition normalized2 :: "Vector2f \<Rightarrow> Vector2f" where
  "normalized2 a = (let z = squaredNorm2 a in if z > 0 then sdiv2 a (sqrt z) else a)"

subsection \<open>Messages\<close>

datatype Quaternion = Quaternion (qx: real) (qy: real) (qz: real) (qw: real)

record PoseStamped =
  position :: Point
  orientation :: Quaternion

record Twist =
  linear :: Vector3f
  angular :: Vector3f

datatype waypoint_choice = hover | costmap | tryPath | direct | reachHeight | goBack

text \<open>The directive of the planner (\<^verbatim>\<open>avoidanceOutput\<close>), with the members the generator
  reads.\<close>

record avoidanceOutput =
  waypoint_type :: waypoint_choice
  obstacle_ahead :: bool
  reach_altitude :: bool
  min_speed :: real
  max_speed :: real
  velocity_sigmoid_slope :: real
  costmap_direction_e :: real
  costmap_direction_z :: real
  path_node_positions :: "Vector3f list"
  last_path_time :: int
  pose :: PoseStamped
  back_off_point :: Point
  back_off_start_point :: Point
  offboard_pose :: PoseStamped

record waypointResult =
  waypoint_type :: waypoint_choice
  position_waypoint :: PoseStamped
  velocity_waypoint :: Twist
  goto_position :: Point
  adapted_goto_position :: Point
  smoothed_goto_position :: Point

record parameters =
  goal_acceptance_radius_in :: real
  goal_acceptance_radius_out :: real
  factor_close_to_goal_start_speed_limitation :: real
  factor_close_to_goal_stop_speed_limitation :: real
  max_speed_close_to_goal_factor :: real
  min_speed_close_to_goal :: real

subsection \<open>Functions and constants declared outside the two source files\<close>

text \<open>
  The generator calls functions of \<^verbatim>\<open>common.cpp\<close>, \<^verbatim>\<open>planner_functions.cpp\<close> and the
  \<^verbatim>\<open>tf\<close> library, and reads the histogram resolution \<^verbatim>\<open>ALPHA_RES\<close>. Their bodies are
  not part of the two files, so they are parameters of the embedding, collected in one
  record. \<^verbatim>\<open>getDirectionFromTree\<close> returns \<open>Some p\<close> where the C++ function returns true
  and has written \<open>p\<close>; \<^verbatim>\<open>calculateFOV\<close> returns the index list and the two elevation
  bounds it writes through its reference arguments.
\<close>

record helpers =
  ALPHA_RES :: int
  velocityLinear :: "real \<Rightarrow> real \<Rightarrow> real \<Rightarrow> real \<Rightarrow> real"
  azimuthAnglefromCartesian :: "Vector3f \<Rightarrow> Vector3f \<Rightarrow> real"
  azimuthAngletoIndex :: "real \<Rightarrow> int \<Rightarrow> int"
  nextYaw :: "PoseStamped \<Rightarrow> Point \<Rightarrow> real"
  createPoseMsg :: "Point \<Rightarrow> real \<Rightarrow> PoseStamped"
  getAngularVelocity :: "real \<Rightarrow> real \<Rightarrow> real"
  fromPolarToCartesian :: "real \<Rightarrow> real \<Rightarrow> real \<Rightarrow> Point \<Rightarrow> Vector3f"
  getDirectionFromTree :: "Vector3f list \<Rightarrow> Vector3f \<Rightarrow> Vector3f option"
  calculateFOV :: "real \<Rightarrow> real \<Rightarrow> real \<Rightarrow> real \<Rightarrow> int list \<times> int \<times> int"
  getYaw :: "Quaternion \<Rightarrow> real"
  getRPY :: "Quaternion \<Rightarrow> real \<times> real \<times> real"

text \<open>The readings of \<^verbatim>\<open>ros::Time::now()\<close> during one call of \<^verbatim>\<open>getWaypoints\<close>, one
  field for each place of the source that reads the clock.\<close>

record clock =
  now_calculateWaypoint :: int
  now_tryPath :: int
  now_since_last_velocity :: int
  now_velocity_time :: int
  now_since_update :: int

definition toSec :: "int \<Rightarrow> real" where
  "toSec d = real_of_int d / 1000000000"

definition Duration :: "int \<Rightarrow> int" where
  "Duration secs = secs * 1000000000"

text \<open>Conversion of a \<^verbatim>\<open>float\<close> to \<^verbatim>\<open>int\<close> drops the fraction.\<close>

definition float_to_int :: "real \<Rightarrow> int" where
  "float_to_int r = (if 0 \<le> r then \<lfloor>r\<rfloor> else \<lceil>r\<rceil>)"

subsection \<open>The generator's state\<close>

record WaypointGenerator =
  planner_info :: avoidanceOutput
  output_wp :: waypointResult
  param :: parameters
  pose :: PoseStamped
  curr_vel :: Twist
  goal :: Vector3f
  curr_yaw :: real
  last_yaw :: real
  new_yaw :: real
  yaw_reached_goal :: real
  last_time :: int
  current_time :: int
  update_time :: int
  velocity_time :: int
  last_wp_type :: waypoint_choice
  last_position_waypoint :: PoseStamped
  last_velocity :: Vector2f
  hover_position :: Vector3f
  reached_goal :: bool
  limit_speed_close_to_goal :: bool
  waypoint_outside_FOV :: bool
  only_yawed :: bool
  speed :: real
  curr_vel_magnitude :: real
  z_FOV_idx :: "int list"
  e_FOV_min :: int
  e_FOV_max :: int
  h_FOV :: real
  v_FOV :: real
  max_jerk_limit_param :: real
  min_jerk_limit_param :: real

abbreviation pose_position :: "WaypointGenerator \<Rightarrow> Vector3f" where
  "pose_position s \<equiv> position (WaypointGenerator.pose s)"

subsection \<open>updateState and setters\<close>

definition setFOV :: "real \<Rightarrow> real \<Rightarrow> WaypointGenerator \<Rightarrow> WaypointGenerator" where
  "setFOV h v s = s\<lparr>h_FOV := h, v_FOV := v\<rparr>"

definition setPlannerInfo :: "avoidanceOutput \<Rightarrow> WaypointGenerator \<Rightarrow> WaypointGenerator" where
  "setPlannerInfo input s = s\<lparr>planner_info := input\<rparr>"

definition updateState ::
  "helpers \<Rightarrow> PoseStamped \<Rightarrow> PoseStamped \<Rightarrow> Twist \<Rightarrow> bool \<Rightarrow> int \<Rightarrow>
   WaypointGenerator \<Rightarrow> WaypointGenerator" where
  "updateState h act_pose goal_msg vel stay t s =
    (let s1 = (if norm3 (sub3 (goal s) (position goal_msg)) > 0.1
               then s\<lparr>reached_goal := False, limit_speed_close_to_goal := False\<rparr>
               else s);
         s2 = s1\<lparr>update_time := t, WaypointGenerator.pose := act_pose, curr_vel := vel,
                 goal := position goal_msg,
                 curr_yaw := getYaw h (orientation act_pose)\<rparr>;
         (roll, pitch, yaw) = getRPY h (orientation act_pose);
         (idx, e_min, e_max) = calculateFOV h (h_FOV s2) (v_FOV s2) yaw pitch;
         s3 = s2\<lparr>z_FOV_idx := idx, e_FOV_min := e_min, e_FOV_max := e_max,
                 curr_vel_magnitude := norm3 (linear vel)\<rparr>
     in if stay
        then s3\<lparr>planner_info := (planner_info s3)\<lparr>avoidanceOutput.waypoint_type := hover\<rparr>\<rparr>
        else s3)"

subsection \<open>Velocity waypoint and goal radius\<close>

definition transformPositionToVelocityWaypoint ::
  "helpers \<Rightarrow> WaypointGenerator \<Rightarrow> WaypointGenerator" where
  "transformPositionToVelocityWaypoint h s =
    s\<lparr>output_wp := (output_wp s)\<lparr>velocity_waypoint :=
        \<lparr>linear = sub3 (position (position_waypoint (output_wp s))) (pose_position s),
         angular = Vector3f 0 0 (getAngularVelocity h (new_yaw s) (curr_yaw s))\<rparr>\<rparr>\<rparr>"

text \<open>\<^verbatim>\<open>withinGoalRadius\<close> returns the member \<^verbatim>\<open>reached_goal_\<close> it has just written: the
  returned boolean is the field \<open>reached_goal\<close> of the state returned here.\<close>

definition withinGoalRadius :: "helpers \<Rightarrow> WaypointGenerator \<Rightarrow> WaypointGenerator" where
  "withinGoalRadius h s =
    (let sqrd_dist = squaredNorm3 (sub3 (goal s) (pose_position s))
     in if sqrd_dist < goal_acceptance_radius_in (param s) * goal_acceptance_radius_in (param s)
        then (if \<not> reached_goal s
              then s\<lparr>yaw_reached_goal := getYaw h (orientation (WaypointGenerator.pose s))\<rparr>
              else s)\<lparr>reached_goal := True\<rparr>
        else if sqrd_dist >
                goal_acceptance_radius_out (param s) * goal_acceptance_radius_out (param s)
        then s\<lparr>reached_goal := False\<rparr>
        else s)"

subsection \<open>Climbing to the goal altitude\<close>

definition reachGoalAltitudeFirst :: "WaypointGenerator \<Rightarrow> WaypointGenerator" where
  "reachGoalAltitudeFirst s =
    (let p = position (offboard_pose (planner_info s));
         goto1 = Vector3f (vx p) (vy p) (vz (pose_position s) + 0.5);
         diff = cwiseAbs (sub3 (goal s) (pose_position s));
         s1 = (if vx diff < 1 \<and> vy diff < 1 then s\<lparr>new_yaw := curr_yaw s\<rparr> else s);
         pose_to_wp = sub3 goto1 (pose_position s);
         pose_to_wp1 = (if norm3 pose_to_wp > 0.01 then normalized3 pose_to_wp else pose_to_wp);
         pose_to_wp2 = smul3 (min_speed (planner_info s)) pose_to_wp1
     in s1\<lparr>output_wp := (output_wp s1)\<lparr>goto_position := add3 (pose_position s) pose_to_wp2\<rparr>\<rparr>)"

subsection \<open>Jerk-limited smoothing\<close>

text \<open>The local variables of \<^verbatim>\<open>smoothWaypoint\<close> before the limiting test, named as in the
  source.\<close>

definition vel_cur_xy :: "WaypointGenerator \<Rightarrow> Vector2f" where
  "vel_cur_xy s = Vector2f (vx (linear (curr_vel s))) (vy (linear (curr_vel s)))"

definition vel_sp_xy :: "real \<Rightarrow> WaypointGenerator \<Rightarrow> Vector2f" where
  "vel_sp_xy dt s =
    Vector2f ((vx (adapted_goto_position (output_wp s)) -
               vx (position (last_position_waypoint s))) / dt)
             ((vy (adapted_goto_position (output_wp s)) -
               vy (position (last_position_waypoint s))) / dt)"

definition accel_cur :: "real \<Rightarrow> WaypointGenerator \<Rightarrow> Vector2f" where
  "accel_cur dt s = sdiv2 (sub2 (vel_cur_xy s) (last_velocity s)) dt"

definition jerk_diff :: "real \<Rightarrow> WaypointGenerator \<Rightarrow> Vector2f" where
  "jerk_diff dt s =
    (let accel_diff = sdiv2 (sub2 (vel_sp_xy dt s) (vel_cur_xy s)) dt
     in sdiv2 (sub2 accel_diff (accel_cur dt s)) dt)"

definition max_jerk :: "WaypointGenerator \<Rightarrow> real" where
  "max_jerk s =
    (if min_jerk_limit_param s > 0.001
     then (let m = max_jerk_limit_param s * norm2 (vel_cur_xy s)
           in if m < min_jerk_limit_param s then min_jerk_limit_param s else m)
     else max_jerk_limit_param s)"

definition smoothWaypoint :: "real \<Rightarrow> WaypointGenerator \<Rightarrow> WaypointGenerator" where
  "smoothWaypoint dt s =
    (let vel_sp =
           (if squaredNorm2 (jerk_diff dt s) > max_jerk s * max_jerk s \<and> max_jerk s > 0.001
            then (let jerk = smul2 (max_jerk s) (normalized2 (jerk_diff dt s))
                  in add2 (smul2 dt (add2 (smul2 dt jerk) (accel_cur dt s))) (vel_cur_xy s))
            else vel_sp_xy dt s)
     in s\<lparr>output_wp := (output_wp s)\<lparr>smoothed_goto_position :=
          Vector3f (vx (position (last_position_waypoint s)) + ux vel_sp * dt)
                   (vy (position (last_position_waypoint s)) + uy vel_sp * dt)
                   (vz (adapted_goto_position (output_wp s)))\<rparr>\<rparr>)"

subsection \<open>Speed adaptation\<close>

text \<open>\<^verbatim>\<open>adaptSpeed\<close> is one function in the source; its five blocks are separate
  definitions here, composed in the order of the source.\<close>

definition adaptSpeed_envelope ::
  "helpers \<Rightarrow> clock \<Rightarrow> WaypointGenerator \<Rightarrow> WaypointGenerator" where
  "adaptSpeed_envelope h clk s =
    (let since_last_velocity_sec = toSec (now_since_last_velocity clk - velocity_time s);
         pinfo = planner_info s
     in if \<not> obstacle_ahead pinfo
        then s\<lparr>speed := velocityLinear h (max_speed pinfo) (velocity_sigmoid_slope pinfo)
                           (min (speed s) (max_speed pinfo)) since_last_velocity_sec\<rparr>
        else s\<lparr>speed := velocityLinear h (min_speed pinfo) (velocity_sigmoid_slope pinfo)
                           (min (speed s) (min_speed pinfo)) since_last_velocity_sec\<rparr>)"

text \<open>The loop over \<^verbatim>\<open>z_FOV_idx_\<close> that keeps the smallest index distance seen so far.\<close>

fun ind_dist_loop :: "int list \<Rightarrow> int \<Rightarrow> int \<Rightarrow> int" where
  "ind_dist_loop [] z_index ind_dist = ind_dist"
| "ind_dist_loop (i # rest) z_index ind_dist =
     ind_dist_loop rest z_index
       (if abs (i - z_index) < ind_dist then abs (i - z_index) else ind_dist)"

definition z_index_of :: "helpers \<Rightarrow> WaypointGenerator \<Rightarrow> int" where
  "z_index_of h s =
    (let z_angle = float_to_int (azimuthAnglefromCartesian h
                     (adapted_goto_position (output_wp s)) (pose_position s))
     in azimuthAngletoIndex h (real_of_int z_angle) (ALPHA_RES h))"

definition angle_diff_of :: "helpers \<Rightarrow> WaypointGenerator \<Rightarrow> real" where
  "angle_diff_of h s =
    (let ind_dist = ind_dist_loop (z_FOV_idx s) (z_index_of h s) 100;
         angle_diff = real_of_int (abs (ALPHA_RES h * ind_dist));
         hover_angle = 30
     in min angle_diff hover_angle)"

definition adaptSpeed_FOV ::
  "helpers \<Rightarrow> clock \<Rightarrow> WaypointGenerator \<Rightarrow> WaypointGenerator" where
  "adaptSpeed_FOV h clk s =
    (let s1 =
          (if z_index_of h s \<in> set (z_FOV_idx s)
           then s\<lparr>waypoint_outside_FOV := False\<rparr>
           else (let s2 = s\<lparr>waypoint_outside_FOV := True\<rparr>
                 in if reach_altitude (planner_info s2) \<and> \<not> reached_goal s2
                    then (let speed1 = speed s2 * (1 - angle_diff_of h s2 / 30)
                          in s2\<lparr>speed := speed1, only_yawed := (speed1 < 0.01)\<rparr>)
                    else s2))
     in s1\<lparr>velocity_time := now_velocity_time clk\<rparr>)"

definition adaptSpeed_delay :: "clock \<Rightarrow> WaypointGenerator \<Rightarrow> WaypointGenerator" where
  "adaptSpeed_delay clk s =
    (let since_update_sec = toSec (now_since_update clk - update_time s);
         delta_dist = since_update_sec * curr_vel_magnitude s
     in s\<lparr>speed := speed s + delta_dist\<rparr>)"

definition adaptSpeed_closeToGoal :: "WaypointGenerator \<Rightarrow> WaypointGenerator" where
  "adaptSpeed_closeToGoal s =
    (let pos_to_goal = cwiseAbs (sub3 (goal s) (pose_position s));
         start = factor_close_to_goal_start_speed_limitation (param s) * curr_vel_magnitude s;
         stop = factor_close_to_goal_stop_speed_limitation (param s) * curr_vel_magnitude s;
         s1 = (if vx pos_to_goal < start \<and> vy pos_to_goal < start
               then s\<lparr>limit_speed_close_to_goal := True\<rparr>
               else if vx pos_to_goal > stop \<or> vy pos_to_goal > stop
               then s\<lparr>limit_speed_close_to_goal := False\<rparr>
               else s)
     in if limit_speed_close_to_goal s1
        then s1\<lparr>speed := max (min (speed s1)
                                (max_speed_close_to_goal_factor (param s1) * norm3 pos_to_goal))
                           (min_speed_close_to_goal (param s1))\<rparr>
        else s1)"

definition adaptSpeed_setWaypoint :: "WaypointGenerator \<Rightarrow> WaypointGenerator" where
  "adaptSpeed_setWaypoint s =
    (let pose_to_wp = sub3 (adapted_goto_position (output_wp s)) (pose_position s);
         pose_to_wp1 = (if norm3 pose_to_wp > 0.01 then normalized3 pose_to_wp else pose_to_wp);
         pose_to_wp2 = smul3 (speed s) pose_to_wp1
     in s\<lparr>output_wp := (output_wp s)\<lparr>adapted_goto_position :=
          add3 (pose_position s) pose_to_wp2\<rparr>\<rparr>)"

definition adaptSpeed :: "helpers \<Rightarrow> clock \<Rightarrow> WaypointGenerator \<Rightarrow> WaypointGenerator" where
  "adaptSpeed h clk s =
    adaptSpeed_setWaypoint (adaptSpeed_closeToGoal (adaptSpeed_delay clk
      (adaptSpeed_FOV h clk (adaptSpeed_envelope h clk s))))"

subsection \<open>Assembling the message\<close>

text \<open>The local variable \<^verbatim>\<open>dt\<close> of \<^verbatim>\<open>getPathMsg\<close>.\<close>

definition getPathMsg_dt :: "WaypointGenerator \<Rightarrow> real" where
  "getPathMsg_dt s =
    (let time_diff = current_time s - last_time s
     in if toSec time_diff > 0 then toSec time_diff else 0.004)"

text \<open>\<^verbatim>\<open>getPathMsg\<close> in three parts: up to the smoother or the altitude climb, the call
  of \<^verbatim>\<open>withinGoalRadius\<close>, and what follows it.\<close>

definition getPathMsg_smoothed ::
  "helpers \<Rightarrow> clock \<Rightarrow> WaypointGenerator \<Rightarrow> WaypointGenerator" where
  "getPathMsg_smoothed h clk s =
    (let s1 = s\<lparr>output_wp := (output_wp s)\<lparr>adapted_goto_position :=
                  goto_position (output_wp s)\<rparr>\<rparr>;
         dt = getPathMsg_dt s1;
         s2 = s1\<lparr>new_yaw := nextYaw h (WaypointGenerator.pose s1)
                                (adapted_goto_position (output_wp s1))\<rparr>;
         s3 = adaptSpeed h clk s2;
         s4 = s3\<lparr>output_wp := (output_wp s3)\<lparr>smoothed_goto_position :=
                  adapted_goto_position (output_wp s3)\<rparr>\<rparr>
     in if \<not> reach_altitude (planner_info s4)
        then (let r = reachGoalAltitudeFirst s4
              in r\<lparr>output_wp := (output_wp r)\<lparr>
                   adapted_goto_position := goto_position (output_wp r),
                   smoothed_goto_position := goto_position (output_wp r)\<rparr>\<rparr>)
        else smoothWaypoint dt s4)"

definition getPathMsg_finish :: "helpers \<Rightarrow> WaypointGenerator \<Rightarrow> WaypointGenerator" where
  "getPathMsg_finish h s6 =
    (let s7 = (if reached_goal s6
               then s6\<lparr>output_wp := (output_wp s6)\<lparr>smoothed_goto_position := goal s6\<rparr>\<rparr>
               else s6);
         s8 = (if reached_goal s7 then s7\<lparr>new_yaw := yaw_reached_goal s7\<rparr> else s7);
         s9 = s8\<lparr>output_wp := (output_wp s8)\<lparr>position_waypoint :=
                  createPoseMsg h (smoothed_goto_position (output_wp s8)) (new_yaw s8)\<rparr>\<rparr>
     in transformPositionToVelocityWaypoint h s9)"

definition getPathMsg :: "helpers \<Rightarrow> clock \<Rightarrow> WaypointGenerator \<Rightarrow> WaypointGenerator" where
  "getPathMsg h clk s =
    getPathMsg_finish h (withinGoalRadius h (getPathMsg_smoothed h clk s))"

subsection \<open>The strategies\<close>

definition goFast :: "helpers \<Rightarrow> clock \<Rightarrow> WaypointGenerator \<Rightarrow> WaypointGenerator" where
  "goFast h clk s =
    (let dir = normalized3 (sub3 (goal s) (pose_position s))
     in getPathMsg h clk
          (s\<lparr>output_wp := (output_wp s)\<lparr>goto_position := add3 (pose_position s) dir\<rparr>\<rparr>))"

definition backOff :: "helpers \<Rightarrow> WaypointGenerator \<Rightarrow> WaypointGenerator" where
  "backOff h s =
    (let d0 = sub3 (pose_position s) (back_off_point (planner_info s));
         d1 = Vector3f (vx d0) (vy d0) 0;
         d2 = normalized3 d1;
         dir = smul3 0.5 d2;
         g0 = add3 (pose_position s) dir;
         g1 = Vector3f (vx g0) (vy g0) (vz (back_off_start_point (planner_info s)));
         s1 = s\<lparr>output_wp := (output_wp s)\<lparr>goto_position := g1,
                  position_waypoint := createPoseMsg h g1 (last_yaw s)\<rparr>\<rparr>;
         s2 = transformPositionToVelocityWaypoint h s1
     in s2\<lparr>last_yaw := curr_yaw s2\<rparr>)"

text \<open>The test of the \<^verbatim>\<open>tryPath\<close> case that decides whether the direction taken from the
  tree is used.\<close>

definition use_tree :: "helpers \<Rightarrow> clock \<Rightarrow> WaypointGenerator \<Rightarrow> bool" where
  "use_tree h clk s =
    (let tree_available =
           (getDirectionFromTree h (path_node_positions (planner_info s)) (pose_position s)
              \<noteq> None);
         dist_goal = norm3 (sub3 (goal s) (pose_position s));
         since_last_path = now_tryPath clk - last_path_time (planner_info s)
     in tree_available \<and> (obstacle_ahead (planner_info s) \<or> dist_goal > 4.0) \<and>
        since_last_path < Duration 5)"

definition calculateWaypoint ::
  "helpers \<Rightarrow> clock \<Rightarrow> WaypointGenerator \<Rightarrow> WaypointGenerator" where
  "calculateWaypoint h clk s =
    (let s1 = s\<lparr>output_wp := (output_wp s)\<lparr>waypointResult.waypoint_type :=
                  avoidanceOutput.waypoint_type (planner_info s)\<rparr>,
                last_time := current_time s,
                current_time := now_calculateWaypoint clk\<rparr>;
         s2 =
          (case avoidanceOutput.waypoint_type (planner_info s1) of
             hover \<Rightarrow>
               (let a = (if last_wp_type s1 \<noteq> hover
                         then s1\<lparr>hover_position := pose_position s1\<rparr> else s1)
                in getPathMsg h clk
                     (a\<lparr>output_wp := (output_wp a)\<lparr>goto_position := hover_position a\<rparr>\<rparr>))
           | costmap \<Rightarrow>
               getPathMsg h clk
                 (s1\<lparr>output_wp := (output_wp s1)\<lparr>goto_position :=
                    fromPolarToCartesian h (costmap_direction_e (planner_info s1))
                      (costmap_direction_z (planner_info s1)) 1.0
                      (position (avoidanceOutput.pose (planner_info s1)))\<rparr>\<rparr>)
           | tryPath \<Rightarrow>
               (case getDirectionFromTree h (path_node_positions (planner_info s1))
                       (pose_position s1) of
                  Some p \<Rightarrow>
                    if use_tree h clk s1
                    then getPathMsg h clk
                           (s1\<lparr>output_wp := (output_wp s1)\<lparr>goto_position :=
                              fromPolarToCartesian h (vx p) (vy p) 1.0
                                (position (avoidanceOutput.pose (planner_info s1)))\<rparr>\<rparr>)
                    else (let g = goFast h clk s1
                          in g\<lparr>output_wp := (output_wp g)\<lparr>
                               waypointResult.waypoint_type := direct\<rparr>\<rparr>)
                | None \<Rightarrow>
                    (let g = goFast h clk s1
                     in g\<lparr>output_wp := (output_wp g)\<lparr>
                          waypointResult.waypoint_type := direct\<rparr>\<rparr>))
           | direct \<Rightarrow> goFast h clk s1
           | reachHeight \<Rightarrow> goFast h clk s1
           | goBack \<Rightarrow> backOff h s1)
     in s2\<lparr>last_wp_type := avoidanceOutput.waypoint_type (planner_info s2),
           last_position_waypoint := position_waypoint (output_wp s2),
           last_yaw := curr_yaw s2,
           last_velocity := Vector2f (vx (linear (curr_vel s2))) (vy (linear (curr_vel s2)))\<rparr>)"

text \<open>\<^verbatim>\<open>getWaypoints\<close> returns a copy of \<^verbatim>\<open>output_\<close>; here it returns the new state, whose
  field \<open>output_wp\<close> is that copy.\<close>

definition getWaypoints :: "helpers \<Rightarrow> clock \<Rightarrow> WaypointGenerator \<Rightarrow> WaypointGenerator" where
  "getWaypoints h clk s = calculateWaypoint h clk s"

subsection \<open>The jerk of a smoothed setpoint\<close>

text \<open>The smoother integrates a jerk twice to a velocity and once more to a position.
  Read backwards, a smoothed position \<open>p\<close> implies the velocity setpoint
  \<open>(p - last_position_waypoint) / dt\<close>, the acceleration it asks for, and the jerk by which
  that acceleration differs from the current one.\<close>

definition implied_jerk :: "real \<Rightarrow> WaypointGenerator \<Rightarrow> Point \<Rightarrow> Vector2f" where
  "implied_jerk dt s p =
    (let vel_sp = Vector2f ((vx p - vx (position (last_position_waypoint s))) / dt)
                           ((vy p - vy (position (last_position_waypoint s))) / dt);
         accel_sp = sdiv2 (sub2 vel_sp (vel_cur_xy s)) dt
     in sdiv2 (sub2 accel_sp (accel_cur dt s)) dt)"

subsection \<open>A concrete scenario\<close>

text \<open>Modelled from the spec: the body of \<^verbatim>\<open>velocityLinear\<close> is in \<^verbatim>\<open>common.cpp\<close>, which is
  not among the source files. The header documents it as returning a speed within the
  given limit, from the old speed, a slope and the elapsed time; the specification calls
  it a saturating ramp towards the target bound.\<close>

definition velocityLinear_ramp :: "real \<Rightarrow> real \<Rightarrow> real \<Rightarrow> real \<Rightarrow> real" where
  "velocityLinear_ramp max_vel slope v_old elapsed = min max_vel (v_old + slope * elapsed)"

text \<open>
  The scenario of the specification: the vehicle at the origin with the identity
  orientation, at rest, the goal at \<open>(10, 0, 0)\<close>, no obstacle, speeds between \<open>0.5\<close> and
  \<open>2\<close>. The geometric helpers are fixed to the values they have in this scenario: the
  bearing of a waypoint due east of the vehicle is 90 degrees from the positive y-axis,
  which is azimuth index 45 at a resolution of 6 degrees; the yaw of the identity
  orientation is 0; a polar direction of elevation 0 and azimuth 0 is the positive
  y-axis.
\<close>

definition origin :: Vector3f where
  "origin = Vector3f 0 0 0"

definition pose0 :: PoseStamped where
  "pose0 = \<lparr>position = origin, orientation = Quaternion 0 0 0 1\<rparr>"

definition h0 :: helpers where
  "h0 = \<lparr>ALPHA_RES = 6,
         velocityLinear = velocityLinear_ramp,
         azimuthAnglefromCartesian = (\<lambda>p org. 90),
         azimuthAngletoIndex = (\<lambda>z res. 45),
         nextYaw = (\<lambda>u v. 0),
         createPoseMsg = (\<lambda>p yaw. \<lparr>position = p, orientation = Quaternion 0 0 0 1\<rparr>),
         getAngularVelocity = (\<lambda>desired cur. desired - cur),
         fromPolarToCartesian = (\<lambda>e z r p. add3 p (Vector3f 0 r 0)),
         getDirectionFromTree = (\<lambda>nodes p. if nodes = [] then None else Some origin),
         calculateFOV = (\<lambda>hf vf yaw pitch. ([41, 42, 43, 44, 45, 46, 47, 48, 49], 10, 17)),
         getYaw = (\<lambda>q. 0),
         getRPY = (\<lambda>q. (0, 0, 0))\<rparr>"

definition clk0 :: clock where
  "clk0 = \<lparr>now_calculateWaypoint = 1000000000, now_tryPath = 1000000000,
           now_since_last_velocity = 1000000000, now_velocity_time = 1000000000,
           now_since_update = 1000000000\<rparr>"

definition info0 :: avoidanceOutput where
  "info0 = \<lparr>avoidanceOutput.waypoint_type = direct, obstacle_ahead = False,
            reach_altitude = True, min_speed = 0.5, max_speed = 2,
            velocity_sigmoid_slope = 1, costmap_direction_e = 0, costmap_direction_z = 0,
            path_node_positions = [], last_path_time = 0, avoidanceOutput.pose = pose0,
            back_off_point = Vector3f 1 0 2, back_off_start_point = Vector3f 0 0 5,
            offboard_pose = pose0\<rparr>"

definition s0 :: WaypointGenerator where
  "s0 = \<lparr>planner_info = info0,
         output_wp = \<lparr>waypointResult.waypoint_type = hover, position_waypoint = pose0,
                      velocity_waypoint = \<lparr>linear = origin, angular = origin\<rparr>,
                      goto_position = origin, adapted_goto_position = origin,
                      smoothed_goto_position = origin\<rparr>,
         param = \<lparr>goal_acceptance_radius_in = 0.5, goal_acceptance_radius_out = 1.5,
                  factor_close_to_goal_start_speed_limitation = 3,
                  factor_close_to_goal_stop_speed_limitation = 4,
                  max_speed_close_to_goal_factor = 0.1, min_speed_close_to_goal = 0.5\<rparr>,
         WaypointGenerator.pose = pose0,
         curr_vel = \<lparr>linear = origin, angular = origin\<rparr>,
         goal = Vector3f 10 0 0,
         curr_yaw = 0, last_yaw = 0, new_yaw = 0, yaw_reached_goal = 0,
         last_time = 0, current_time = 1000000000, update_time = 1000000000,
         velocity_time = 1000000000,
         last_wp_type = direct, last_position_waypoint = pose0,
         last_velocity = Vector2f 0 0, hover_position = Vector3f 7 7 7,
         reached_goal = False, limit_speed_close_to_goal = False,
         waypoint_outside_FOV = False, only_yawed = False,
         speed = 2, curr_vel_magnitude = 0,
         z_FOV_idx = [41, 42, 43, 44, 45, 46, 47, 48, 49], e_FOV_min = 10, e_FOV_max = 17,
         h_FOV = 59, v_FOV = 46,
         max_jerk_limit_param = 500, min_jerk_limit_param = 0\<rparr>"

subsection \<open>Relabelling the mode\<close>


subsection \<open>Angular distance on the azimuth grid\<close>

text \<open>
  The quantity the specification names, for comparison with what \<^verbatim>\<open>adaptSpeed\<close> computes.
  Azimuth angles lie in \<open>(-180, 180]\<close> (\<^verbatim>\<open>common.h\<close>), so the cells of \<open>res\<close> degrees form
  a circle of \<open>360 div res\<close> cells: two cells are as many cells apart as the shorter way
  round, and the angular distance from a cell to the nearest visible cell is the
  resolution times the smallest such number.
\<close>

definition cell_distance :: "int \<Rightarrow> int \<Rightarrow> int \<Rightarrow> int" where
  "cell_distance res i j = min (abs (i - j)) (360 div res - abs (i - j))"

definition angular_distance_to_nearest_visible :: "int \<Rightarrow> int list \<Rightarrow> int \<Rightarrow> real" where
  "angular_distance_to_nearest_visible res visible z =
     real_of_int (res * Min ((\<lambda>i. cell_distance res i z) ` set visible))"

text \<open>
  A tick at the seam of the azimuth grid: the candidate waypoint lies one unit behind the
  vehicle and a hundredth to the side, at a bearing of 179 degrees from the positive
  y-axis, which is the last cell, 59, at a resolution of 6 degrees; the visible cells
  are the first ten, 0 to 9, which begin on the other side of the seam.
\<close>

definition h_seam :: helpers where
  "h_seam = h0\<lparr>azimuthAnglefromCartesian := (\<lambda>p org. 179),
                azimuthAngletoIndex := (\<lambda>z res. 59)\<rparr>"

definition s_seam :: WaypointGenerator where
  "s_seam = s0\<lparr>output_wp := (output_wp s0)\<lparr>adapted_goto_position := Vector3f (1 / 100) (- 1) 0\<rparr>,
                z_FOV_idx := [0, 1, 2, 3, 4, 5, 6, 7, 8, 9]\<rparr>"

subsection \<open>Floating-point values that are not numbers\<close>

text \<open>
  The real-number reading above has no not-a-number value. For the two raw goal points
  that normalise a direction, \<^verbatim>\<open>goFast\<close> and \<^verbatim>\<open>backOff\<close>, the computation is embedded a
  second time over floating-point values extended by the two infinities and NaN, with
  the special cases of IEEE 754 arithmetic: \<open>0 / 0\<close>, \<open>\<infinity> - \<infinity>\<close>, \<open>0 \<cdot> \<infinity>\<close>, \<open>\<infinity> / \<infinity>\<close> and the
  square root of a negative value are NaN, a non-zero value divided by zero is an
  infinity, NaN propagates through every operation, and every comparison with NaN is
  false. Finite values are still real numbers (no rounding, no overflow), and zero has
  no sign.
\<close>

datatype xfloat = Fin real | PInf | NInf | NaN

fun xneg :: "xfloat \<Rightarrow> xfloat" where
  "xneg (Fin a) = Fin (- a)"
| "xneg PInf = NInf"
| "xneg NInf = PInf"
| "xneg NaN = NaN"

fun xadd :: "xfloat \<Rightarrow> xfloat \<Rightarrow> xfloat" where
  "xadd NaN b = NaN"
| "xadd a NaN = NaN"
| "xadd (Fin a) (Fin b) = Fin (a + b)"
| "xadd PInf NInf = NaN"
| "xadd NInf PInf = NaN"
| "xadd PInf b = PInf"
| "xadd NInf b = NInf"
| "xadd (Fin a) b = b"

definition xsub :: "xfloat \<Rightarrow> xfloat \<Rightarrow> xfloat" where
  "xsub a b = xadd a (xneg b)"

fun xmul :: "xfloat \<Rightarrow> xfloat \<Rightarrow> xfloat" where
  "xmul NaN b = NaN"
| "xmul a NaN = NaN"
| "xmul (Fin a) (Fin b) = Fin (a * b)"
| "xmul (Fin a) PInf = (if a = 0 then NaN else if 0 < a then PInf else NInf)"
| "xmul (Fin a) NInf = (if a = 0 then NaN else if 0 < a then NInf else PInf)"
| "xmul PInf (Fin b) = (if b = 0 then NaN else if 0 < b then PInf else NInf)"
| "xmul NInf (Fin b) = (if b = 0 then NaN else if 0 < b then NInf else PInf)"
| "xmul PInf PInf = PInf"
| "xmul NInf NInf = PInf"
| "xmul PInf NInf = NInf"
| "xmul NInf PInf = NInf"

fun xdiv :: "xfloat \<Rightarrow> xfloat \<Rightarrow> xfloat" where
  "xdiv NaN b = NaN"
| "xdiv a NaN = NaN"
| "xdiv (Fin a) (Fin b) =
     (if b = 0 then (if a = 0 then NaN else if 0 < a then PInf else NInf) else Fin (a / b))"
| "xdiv (Fin a) b = Fin 0"
| "xdiv PInf (Fin b) = (if 0 \<le> b then PInf else NInf)"
| "xdiv NInf (Fin b) = (if 0 \<le> b then NInf else PInf)"
| "xdiv a b = NaN"

fun xsqrt :: "xfloat \<Rightarrow> xfloat" where
  "xsqrt (Fin a) = (if a < 0 then NaN else Fin (sqrt a))"
| "xsqrt PInf = PInf"
| "xsqrt NInf = NaN"
| "xsqrt NaN = NaN"

fun xless :: "xfloat \<Rightarrow> xfloat \<Rightarrow> bool" where
  "xless NaN b = False"
| "xless a NaN = False"
| "xless (Fin a) (Fin b) = (a < b)"
| "xless a PInf = (a \<noteq> PInf)"
| "xless NInf b = (b \<noteq> NInf)"
| "xless a b = False"

datatype xVector3f = xVector3f (xx: xfloat) (xy: xfloat) (xz: xfloat)

definition fin3 :: "Vector3f \<Rightarrow> xVector3f" where
  "fin3 a = xVector3f (Fin (vx a)) (Fin (vy a)) (Fin (vz a))"

definition has_NaN :: "xVector3f \<Rightarrow> bool" where
  "has_NaN a = (xx a = NaN \<or> xy a = NaN \<or> xz a = NaN)"

definition xadd3 :: "xVector3f \<Rightarrow> xVector3f \<Rightarrow> xVector3f" where
  "xadd3 a b = xVector3f (xadd (xx a) (xx b)) (xadd (xy a) (xy b)) (xadd (xz a) (xz b))"

definition xsub3 :: "xVector3f \<Rightarrow> xVector3f \<Rightarrow> xVector3f" where
  "xsub3 a b = xVector3f (xsub (xx a) (xx b)) (xsub (xy a) (xy b)) (xsub (xz a) (xz b))"

definition xsmul3 :: "xfloat \<Rightarrow> xVector3f \<Rightarrow> xVector3f" where
  "xsmul3 c a = xVector3f (xmul c (xx a)) (xmul c (xy a)) (xmul c (xz a))"

definition xsdiv3 :: "xVector3f \<Rightarrow> xfloat \<Rightarrow> xVector3f" where
  "xsdiv3 a c = xVector3f (xdiv (xx a) c) (xdiv (xy a) c) (xdiv (xz a) c)"

definition xsquaredNorm3 :: "xVector3f \<Rightarrow> xfloat" where
  "xsquaredNorm3 a =
     xadd (xadd (xmul (xx a) (xx a)) (xmul (xy a) (xy a))) (xmul (xz a) (xz a))"

text \<open>Eigen's \<^verbatim>\<open>normalized()\<close> and \<^verbatim>\<open>normalize()\<close> as in \<open>normalized3\<close>: the division is
  made only for a positive squared norm. \<open>xquotient_by_norm\<close> is the bare quotient
  \<open>v / v.norm()\<close>, for comparison.\<close>

definition xnormalized3 :: "xVector3f \<Rightarrow> xVector3f" where
  "xnormalized3 a =
     (let z = xsquaredNorm3 a in if xless (Fin 0) z then xsdiv3 a (xsqrt z) else a)"

definition xquotient_by_norm :: "xVector3f \<Rightarrow> xVector3f" where
  "xquotient_by_norm a = xsdiv3 a (xsqrt (xsquaredNorm3 a))"

text \<open>The raw goal point of \<^verbatim>\<open>goFast\<close> from the current position and the goal, and the
  raw goal point of \<^verbatim>\<open>backOff\<close> from the current position, the back-off point and the
  altitude of the back-off start point.\<close>

definition goFast_goto_x :: "xVector3f \<Rightarrow> xVector3f \<Rightarrow> xVector3f" where
  "goFast_goto_x pos goal_pos = xadd3 pos (xnormalized3 (xsub3 goal_pos pos))"

definition backOff_goto_x :: "xVector3f \<Rightarrow> xVector3f \<Rightarrow> xfloat \<Rightarrow> xVector3f" where
  "backOff_goto_x pos back_off start_z =
    (let d0 = xsub3 pos back_off;
         d1 = xVector3f (xx d0) (xy d0) (Fin 0);
         d2 = xnormalized3 d1;
         dir = xsmul3 (Fin 0.5) d2;
         g0 = xadd3 pos dir
     in xVector3f (xx g0) (xy g0) start_z)"

section \<open>Properties\<close>

subsection \<open>What each function leaves unchanged\<close>

lemma envelope_frame [simp]:
  "planner_info (adaptSpeed_envelope h clk s) = planner_info s"
  "hover_position (adaptSpeed_envelope h clk s) = hover_position s"
  "output_wp (adaptSpeed_envelope h clk s) = output_wp s"
  "goal (adaptSpeed_envelope h clk s) = goal s"
  "WaypointGenerator.pose (adaptSpeed_envelope h clk s) = WaypointGenerator.pose s"
  "reached_goal (adaptSpeed_envelope h clk s) = reached_goal s"
  "yaw_reached_goal (adaptSpeed_envelope h clk s) = yaw_reached_goal s"
  "param (adaptSpeed_envelope h clk s) = param s"
  "curr_vel (adaptSpeed_envelope h clk s) = curr_vel s"
  "curr_yaw (adaptSpeed_envelope h clk s) = curr_yaw s"
  "new_yaw (adaptSpeed_envelope h clk s) = new_yaw s"
  "last_position_waypoint (adaptSpeed_envelope h clk s) = last_position_waypoint s"
  "last_velocity (adaptSpeed_envelope h clk s) = last_velocity s"
  "current_time (adaptSpeed_envelope h clk s) = current_time s"
  "last_time (adaptSpeed_envelope h clk s) = last_time s"
  "max_jerk_limit_param (adaptSpeed_envelope h clk s) = max_jerk_limit_param s"
  "min_jerk_limit_param (adaptSpeed_envelope h clk s) = min_jerk_limit_param s"
  "z_FOV_idx (adaptSpeed_envelope h clk s) = z_FOV_idx s"
  "update_time (adaptSpeed_envelope h clk s) = update_time s"
  "curr_vel_magnitude (adaptSpeed_envelope h clk s) = curr_vel_magnitude s"
  "limit_speed_close_to_goal (adaptSpeed_envelope h clk s) = limit_speed_close_to_goal s"
  "only_yawed (adaptSpeed_envelope h clk s) = only_yawed s"
  by (simp_all add: adaptSpeed_envelope_def Let_def)

lemma FOV_frame [simp]:
  "planner_info (adaptSpeed_FOV h clk s) = planner_info s"
  "hover_position (adaptSpeed_FOV h clk s) = hover_position s"
  "output_wp (adaptSpeed_FOV h clk s) = output_wp s"
  "goal (adaptSpeed_FOV h clk s) = goal s"
  "WaypointGenerator.pose (adaptSpeed_FOV h clk s) = WaypointGenerator.pose s"
  "reached_goal (adaptSpeed_FOV h clk s) = reached_goal s"
  "yaw_reached_goal (adaptSpeed_FOV h clk s) = yaw_reached_goal s"
  "param (adaptSpeed_FOV h clk s) = param s"
  "curr_vel (adaptSpeed_FOV h clk s) = curr_vel s"
  "curr_yaw (adaptSpeed_FOV h clk s) = curr_yaw s"
  "new_yaw (adaptSpeed_FOV h clk s) = new_yaw s"
  "last_position_waypoint (adaptSpeed_FOV h clk s) = last_position_waypoint s"
  "last_velocity (adaptSpeed_FOV h clk s) = last_velocity s"
  "current_time (adaptSpeed_FOV h clk s) = current_time s"
  "last_time (adaptSpeed_FOV h clk s) = last_time s"
  "max_jerk_limit_param (adaptSpeed_FOV h clk s) = max_jerk_limit_param s"
  "min_jerk_limit_param (adaptSpeed_FOV h clk s) = min_jerk_limit_param s"
  "update_time (adaptSpeed_FOV h clk s) = update_time s"
  "curr_vel_magnitude (adaptSpeed_FOV h clk s) = curr_vel_magnitude s"
  "limit_speed_close_to_goal (adaptSpeed_FOV h clk s) = limit_speed_close_to_goal s"
  by (simp_all add: adaptSpeed_FOV_def Let_def)

lemma delay_frame [simp]:
  "planner_info (adaptSpeed_delay clk s) = planner_info s"
  "hover_position (adaptSpeed_delay clk s) = hover_position s"
  "output_wp (adaptSpeed_delay clk s) = output_wp s"
  "goal (adaptSpeed_delay clk s) = goal s"
  "WaypointGenerator.pose (adaptSpeed_delay clk s) = WaypointGenerator.pose s"
  "reached_goal (adaptSpeed_delay clk s) = reached_goal s"
  "yaw_reached_goal (adaptSpeed_delay clk s) = yaw_reached_goal s"
  "param (adaptSpeed_delay clk s) = param s"
  "curr_vel (adaptSpeed_delay clk s) = curr_vel s"
  "curr_yaw (adaptSpeed_delay clk s) = curr_yaw s"
  "new_yaw (adaptSpeed_delay clk s) = new_yaw s"
  "last_position_waypoint (adaptSpeed_delay clk s) = last_position_waypoint s"
  "last_velocity (adaptSpeed_delay clk s) = last_velocity s"
  "current_time (adaptSpeed_delay clk s) = current_time s"
  "last_time (adaptSpeed_delay clk s) = last_time s"
  "max_jerk_limit_param (adaptSpeed_delay clk s) = max_jerk_limit_param s"
  "min_jerk_limit_param (adaptSpeed_delay clk s) = min_jerk_limit_param s"
  "curr_vel_magnitude (adaptSpeed_delay clk s) = curr_vel_magnitude s"
  "limit_speed_close_to_goal (adaptSpeed_delay clk s) = limit_speed_close_to_goal s"
  "only_yawed (adaptSpeed_delay clk s) = only_yawed s"
  by (simp_all add: adaptSpeed_delay_def Let_def)

lemma closeToGoal_frame [simp]:
  "planner_info (adaptSpeed_closeToGoal s) = planner_info s"
  "hover_position (adaptSpeed_closeToGoal s) = hover_position s"
  "output_wp (adaptSpeed_closeToGoal s) = output_wp s"
  "goal (adaptSpeed_closeToGoal s) = goal s"
  "WaypointGenerator.pose (adaptSpeed_closeToGoal s) = WaypointGenerator.pose s"
  "reached_goal (adaptSpeed_closeToGoal s) = reached_goal s"
  "yaw_reached_goal (adaptSpeed_closeToGoal s) = yaw_reached_goal s"
  "param (adaptSpeed_closeToGoal s) = param s"
  "curr_vel (adaptSpeed_closeToGoal s) = curr_vel s"
  "curr_yaw (adaptSpeed_closeToGoal s) = curr_yaw s"
  "new_yaw (adaptSpeed_closeToGoal s) = new_yaw s"
  "last_position_waypoint (adaptSpeed_closeToGoal s) = last_position_waypoint s"
  "last_velocity (adaptSpeed_closeToGoal s) = last_velocity s"
  "current_time (adaptSpeed_closeToGoal s) = current_time s"
  "last_time (adaptSpeed_closeToGoal s) = last_time s"
  "max_jerk_limit_param (adaptSpeed_closeToGoal s) = max_jerk_limit_param s"
  "min_jerk_limit_param (adaptSpeed_closeToGoal s) = min_jerk_limit_param s"
  "only_yawed (adaptSpeed_closeToGoal s) = only_yawed s"
  by (simp_all add: adaptSpeed_closeToGoal_def Let_def)

lemma setWaypoint_frame [simp]:
  "planner_info (adaptSpeed_setWaypoint s) = planner_info s"
  "hover_position (adaptSpeed_setWaypoint s) = hover_position s"
  "waypointResult.waypoint_type (output_wp (adaptSpeed_setWaypoint s)) =
     waypointResult.waypoint_type (output_wp s)"
  "goto_position (output_wp (adaptSpeed_setWaypoint s)) = goto_position (output_wp s)"
  "goal (adaptSpeed_setWaypoint s) = goal s"
  "WaypointGenerator.pose (adaptSpeed_setWaypoint s) = WaypointGenerator.pose s"
  "reached_goal (adaptSpeed_setWaypoint s) = reached_goal s"
  "yaw_reached_goal (adaptSpeed_setWaypoint s) = yaw_reached_goal s"
  "param (adaptSpeed_setWaypoint s) = param s"
  "curr_vel (adaptSpeed_setWaypoint s) = curr_vel s"
  "curr_yaw (adaptSpeed_setWaypoint s) = curr_yaw s"
  "new_yaw (adaptSpeed_setWaypoint s) = new_yaw s"
  "last_position_waypoint (adaptSpeed_setWaypoint s) = last_position_waypoint s"
  "last_velocity (adaptSpeed_setWaypoint s) = last_velocity s"
  "current_time (adaptSpeed_setWaypoint s) = current_time s"
  "last_time (adaptSpeed_setWaypoint s) = last_time s"
  "max_jerk_limit_param (adaptSpeed_setWaypoint s) = max_jerk_limit_param s"
  "min_jerk_limit_param (adaptSpeed_setWaypoint s) = min_jerk_limit_param s"
  "speed (adaptSpeed_setWaypoint s) = speed s"
  "only_yawed (adaptSpeed_setWaypoint s) = only_yawed s"
  "limit_speed_close_to_goal (adaptSpeed_setWaypoint s) = limit_speed_close_to_goal s"
  by (simp_all add: adaptSpeed_setWaypoint_def Let_def)

lemma adaptSpeed_frame [simp]:
  "planner_info (adaptSpeed h clk s) = planner_info s"
  "hover_position (adaptSpeed h clk s) = hover_position s"
  "waypointResult.waypoint_type (output_wp (adaptSpeed h clk s)) =
     waypointResult.waypoint_type (output_wp s)"
  "goto_position (output_wp (adaptSpeed h clk s)) = goto_position (output_wp s)"
  "goal (adaptSpeed h clk s) = goal s"
  "WaypointGenerator.pose (adaptSpeed h clk s) = WaypointGenerator.pose s"
  "reached_goal (adaptSpeed h clk s) = reached_goal s"
  "yaw_reached_goal (adaptSpeed h clk s) = yaw_reached_goal s"
  "param (adaptSpeed h clk s) = param s"
  "curr_vel (adaptSpeed h clk s) = curr_vel s"
  "curr_yaw (adaptSpeed h clk s) = curr_yaw s"
  "new_yaw (adaptSpeed h clk s) = new_yaw s"
  "last_position_waypoint (adaptSpeed h clk s) = last_position_waypoint s"
  "last_velocity (adaptSpeed h clk s) = last_velocity s"
  "current_time (adaptSpeed h clk s) = current_time s"
  "last_time (adaptSpeed h clk s) = last_time s"
  "max_jerk_limit_param (adaptSpeed h clk s) = max_jerk_limit_param s"
  "min_jerk_limit_param (adaptSpeed h clk s) = min_jerk_limit_param s"
  by (simp_all add: adaptSpeed_def)

lemma withinGoalRadius_frame [simp]:
  "planner_info (withinGoalRadius h s) = planner_info s"
  "hover_position (withinGoalRadius h s) = hover_position s"
  "output_wp (withinGoalRadius h s) = output_wp s"
  "goal (withinGoalRadius h s) = goal s"
  "curr_vel (withinGoalRadius h s) = curr_vel s"
  "curr_yaw (withinGoalRadius h s) = curr_yaw s"
  "new_yaw (withinGoalRadius h s) = new_yaw s"
  "WaypointGenerator.pose (withinGoalRadius h s) = WaypointGenerator.pose s"
  by (simp_all add: withinGoalRadius_def Let_def)

lemma smoothWaypoint_frame [simp]:
  "planner_info (smoothWaypoint dt s) = planner_info s"
  "hover_position (smoothWaypoint dt s) = hover_position s"
  "waypointResult.waypoint_type (output_wp (smoothWaypoint dt s)) =
     waypointResult.waypoint_type (output_wp s)"
  "goto_position (output_wp (smoothWaypoint dt s)) = goto_position (output_wp s)"
  "adapted_goto_position (output_wp (smoothWaypoint dt s)) = adapted_goto_position (output_wp s)"
  "goal (smoothWaypoint dt s) = goal s"
  "WaypointGenerator.pose (smoothWaypoint dt s) = WaypointGenerator.pose s"
  "reached_goal (smoothWaypoint dt s) = reached_goal s"
  "yaw_reached_goal (smoothWaypoint dt s) = yaw_reached_goal s"
  "param (smoothWaypoint dt s) = param s"
  "curr_vel (smoothWaypoint dt s) = curr_vel s"
  "curr_yaw (smoothWaypoint dt s) = curr_yaw s"
  "new_yaw (smoothWaypoint dt s) = new_yaw s"
  by (simp_all add: smoothWaypoint_def Let_def)

lemma reachGoalAltitudeFirst_frame [simp]:
  "planner_info (reachGoalAltitudeFirst s) = planner_info s"
  "hover_position (reachGoalAltitudeFirst s) = hover_position s"
  "waypointResult.waypoint_type (output_wp (reachGoalAltitudeFirst s)) =
     waypointResult.waypoint_type (output_wp s)"
  "goal (reachGoalAltitudeFirst s) = goal s"
  "WaypointGenerator.pose (reachGoalAltitudeFirst s) = WaypointGenerator.pose s"
  "reached_goal (reachGoalAltitudeFirst s) = reached_goal s"
  "yaw_reached_goal (reachGoalAltitudeFirst s) = yaw_reached_goal s"
  "param (reachGoalAltitudeFirst s) = param s"
  "curr_vel (reachGoalAltitudeFirst s) = curr_vel s"
  "curr_yaw (reachGoalAltitudeFirst s) = curr_yaw s"
  by (simp_all add: reachGoalAltitudeFirst_def Let_def)

lemma transform_frame [simp]:
  "planner_info (transformPositionToVelocityWaypoint h s) = planner_info s"
  "hover_position (transformPositionToVelocityWaypoint h s) = hover_position s"
  "waypointResult.waypoint_type (output_wp (transformPositionToVelocityWaypoint h s)) =
     waypointResult.waypoint_type (output_wp s)"
  "goto_position (output_wp (transformPositionToVelocityWaypoint h s)) =
     goto_position (output_wp s)"
  "smoothed_goto_position (output_wp (transformPositionToVelocityWaypoint h s)) =
     smoothed_goto_position (output_wp s)"
  "position_waypoint (output_wp (transformPositionToVelocityWaypoint h s)) =
     position_waypoint (output_wp s)"
  "goal (transformPositionToVelocityWaypoint h s) = goal s"
  "reached_goal (transformPositionToVelocityWaypoint h s) = reached_goal s"
  "yaw_reached_goal (transformPositionToVelocityWaypoint h s) = yaw_reached_goal s"
  "curr_vel (transformPositionToVelocityWaypoint h s) = curr_vel s"
  "curr_yaw (transformPositionToVelocityWaypoint h s) = curr_yaw s"
  "new_yaw (transformPositionToVelocityWaypoint h s) = new_yaw s"
  by (simp_all add: transformPositionToVelocityWaypoint_def)

lemma withinGoalRadius_frame2 [simp]:
  "param (withinGoalRadius h s) = param s"
  "last_time (withinGoalRadius h s) = last_time s"
  "current_time (withinGoalRadius h s) = current_time s"
  by (simp_all add: withinGoalRadius_def Let_def)

lemma getPathMsg_smoothed_frame [simp]:
  "planner_info (getPathMsg_smoothed h clk s) = planner_info s"
  "hover_position (getPathMsg_smoothed h clk s) = hover_position s"
  "waypointResult.waypoint_type (output_wp (getPathMsg_smoothed h clk s)) =
     waypointResult.waypoint_type (output_wp s)"
  "goal (getPathMsg_smoothed h clk s) = goal s"
  "WaypointGenerator.pose (getPathMsg_smoothed h clk s) = WaypointGenerator.pose s"
  "reached_goal (getPathMsg_smoothed h clk s) = reached_goal s"
  "yaw_reached_goal (getPathMsg_smoothed h clk s) = yaw_reached_goal s"
  "param (getPathMsg_smoothed h clk s) = param s"
  "curr_vel (getPathMsg_smoothed h clk s) = curr_vel s"
  "curr_yaw (getPathMsg_smoothed h clk s) = curr_yaw s"
  by (simp_all add: getPathMsg_smoothed_def Let_def)

lemma getPathMsg_finish_frame [simp]:
  "planner_info (getPathMsg_finish h s) = planner_info s"
  "hover_position (getPathMsg_finish h s) = hover_position s"
  "waypointResult.waypoint_type (output_wp (getPathMsg_finish h s)) =
     waypointResult.waypoint_type (output_wp s)"
  "goto_position (output_wp (getPathMsg_finish h s)) = goto_position (output_wp s)"
  "goal (getPathMsg_finish h s) = goal s"
  "reached_goal (getPathMsg_finish h s) = reached_goal s"
  "yaw_reached_goal (getPathMsg_finish h s) = yaw_reached_goal s"
  "curr_vel (getPathMsg_finish h s) = curr_vel s"
  "curr_yaw (getPathMsg_finish h s) = curr_yaw s"
  by (simp_all add: getPathMsg_finish_def Let_def)

lemma getPathMsg_frame [simp]:
  "planner_info (getPathMsg h clk s) = planner_info s"
  "hover_position (getPathMsg h clk s) = hover_position s"
  "waypointResult.waypoint_type (output_wp (getPathMsg h clk s)) =
     waypointResult.waypoint_type (output_wp s)"
  "curr_vel (getPathMsg h clk s) = curr_vel s"
  "curr_yaw (getPathMsg h clk s) = curr_yaw s"
  "goal (getPathMsg h clk s) = goal s"
  by (simp_all add: getPathMsg_def)

subsection \<open>updateState\<close>

text \<open>
  Claim C9. A call of \<^verbatim>\<open>updateState\<close> whose goal lies more than 0.1 away (Euclidean norm)
  from the goal stored before resets both hysteresis flags, \<open>reached_goal\<close> and
  \<open>limit_speed_close_to_goal\<close>, to false; every other call leaves both flags as they
  were.
\<close>

theorem updateState_goal_change_resets_flags:
  "reached_goal (updateState h act_pose goal_msg vel stay t s) =
     (if norm3 (sub3 (goal s) (position goal_msg)) > 0.1 then False else reached_goal s) \<and>
   limit_speed_close_to_goal (updateState h act_pose goal_msg vel stay t s) =
     (if norm3 (sub3 (goal s) (position goal_msg)) > 0.1 then False
      else limit_speed_close_to_goal s)"
  by (simp add: updateState_def Let_def split: prod.splits)

text \<open>Two calls in the scenario, from a state with both flags set: the goal moved by one
  unit, and the goal unchanged.\<close>

theorem updateState_goal_change_resets_flags_witness:
  "\<not> reached_goal (updateState h0 pose0 \<lparr>position = Vector3f 9 0 0, orientation = Quaternion 0 0 0 1\<rparr>
        \<lparr>linear = origin, angular = origin\<rparr> False 5
        (s0\<lparr>reached_goal := True, limit_speed_close_to_goal := True\<rparr>)) \<and>
   \<not> limit_speed_close_to_goal (updateState h0 pose0
        \<lparr>position = Vector3f 9 0 0, orientation = Quaternion 0 0 0 1\<rparr>
        \<lparr>linear = origin, angular = origin\<rparr> False 5
        (s0\<lparr>reached_goal := True, limit_speed_close_to_goal := True\<rparr>)) \<and>
   reached_goal (updateState h0 pose0 \<lparr>position = Vector3f 10 0 0, orientation = Quaternion 0 0 0 1\<rparr>
        \<lparr>linear = origin, angular = origin\<rparr> False 5
        (s0\<lparr>reached_goal := True, limit_speed_close_to_goal := True\<rparr>)) \<and>
   limit_speed_close_to_goal (updateState h0 pose0
        \<lparr>position = Vector3f 10 0 0, orientation = Quaternion 0 0 0 1\<rparr>
        \<lparr>linear = origin, angular = origin\<rparr> False 5
        (s0\<lparr>reached_goal := True, limit_speed_close_to_goal := True\<rparr>))"
  using updateState_goal_change_resets_flags
          [of h0 pose0 "\<lparr>position = Vector3f 9 0 0, orientation = Quaternion 0 0 0 1\<rparr>"
              "\<lparr>linear = origin, angular = origin\<rparr>" False 5
              "s0\<lparr>reached_goal := True, limit_speed_close_to_goal := True\<rparr>"]
        updateState_goal_change_resets_flags
          [of h0 pose0 "\<lparr>position = Vector3f 10 0 0, orientation = Quaternion 0 0 0 1\<rparr>"
              "\<lparr>linear = origin, angular = origin\<rparr>" False 5
              "s0\<lparr>reached_goal := True, limit_speed_close_to_goal := True\<rparr>"]
  by (simp add: s0_def norm3_def squaredNorm3_def sub3_def)

lemma updateState_stay:
  "planner_info (updateState h act_pose goal_msg vel True t s) =
     (planner_info s)\<lparr>avoidanceOutput.waypoint_type := hover\<rparr>"
  by (simp add: updateState_def Let_def split: prod.splits)

lemma updateState_mode_irrelevant:
  "updateState h act_pose goal_msg vel True t (setPlannerInfo (input\<lparr>avoidanceOutput.waypoint_type := m\<rparr>) s) =
   updateState h act_pose goal_msg vel True t (setPlannerInfo (input\<lparr>avoidanceOutput.waypoint_type := hover\<rparr>) s)"
  by (simp add: updateState_def setPlannerInfo_def Let_def split: prod.splits)

lemma updateState_frame [simp]:
  "last_wp_type (updateState h act_pose goal_msg vel stay t s) = last_wp_type s"
  "hover_position (updateState h act_pose goal_msg vel stay t s) = hover_position s"
  "WaypointGenerator.pose (updateState h act_pose goal_msg vel stay t s) = act_pose"
  by (simp_all add: updateState_def Let_def split: prod.splits)

lemma calculateWaypoint_hover:
  assumes "avoidanceOutput.waypoint_type (planner_info s) = hover"
  shows "waypointResult.waypoint_type (output_wp (calculateWaypoint h clk s)) = hover"
    and "last_wp_type (calculateWaypoint h clk s) = hover"
    and "hover_position (calculateWaypoint h clk s) =
           (if last_wp_type s \<noteq> hover then pose_position s else hover_position s)"
  using assms by (simp_all add: calculateWaypoint_def Let_def)

subsection \<open>Goal radius\<close>

lemma norm3_nonneg: "0 \<le> norm3 a"
  by (simp add: norm3_def squaredNorm3_def)

lemma squaredNorm3_nonneg: "0 \<le> squaredNorm3 a"
  by (simp add: squaredNorm3_def)

lemma norm3_square: "norm3 a * norm3 a = squaredNorm3 a"
  by (simp add: norm3_def squaredNorm3_nonneg)

lemma norm3_le_imp_squared: "norm3 a \<le> r \<Longrightarrow> squaredNorm3 a \<le> r * r"
proof -
  assume le: "norm3 a \<le> r"
  have "norm3 a * norm3 a \<le> r * r"
    using le norm3_nonneg [of a] by (intro mult_mono) auto
  then show ?thesis by (simp add: norm3_square)
qed

lemma squared_gt_imp_norm3: "squaredNorm3 a > r * r \<Longrightarrow> norm3 a > r"
  using norm3_le_imp_squared [of a r] by (cases "norm3 a \<le> r") auto

lemma withinGoalRadius_reached:
  "reached_goal (withinGoalRadius h s) =
     (squaredNorm3 (sub3 (goal s) (pose_position s)) <
        goal_acceptance_radius_in (param s) * goal_acceptance_radius_in (param s) \<or>
      reached_goal s \<and>
      \<not> squaredNorm3 (sub3 (goal s) (pose_position s)) >
        goal_acceptance_radius_out (param s) * goal_acceptance_radius_out (param s))"
  by (simp add: withinGoalRadius_def Let_def)

lemma withinGoalRadius_yaw:
  "yaw_reached_goal (withinGoalRadius h s) =
     (if squaredNorm3 (sub3 (goal s) (pose_position s)) <
           goal_acceptance_radius_in (param s) * goal_acceptance_radius_in (param s) \<and>
         \<not> reached_goal s
      then getYaw h (orientation (WaypointGenerator.pose s)) else yaw_reached_goal s)"
  by (simp add: withinGoalRadius_def Let_def)

text \<open>The state on which \<^verbatim>\<open>getPathMsg\<close> calls \<^verbatim>\<open>withinGoalRadius\<close> has the goal, the pose,
  the parameters and the two goal-radius members of the state at entry.\<close>

lemma getPathMsg_reached:
  "reached_goal (getPathMsg h clk s) = reached_goal (withinGoalRadius h s)"
  by (simp add: getPathMsg_def withinGoalRadius_reached)

lemma getPathMsg_yaw_reached:
  "yaw_reached_goal (getPathMsg h clk s) = yaw_reached_goal (withinGoalRadius h s)"
  by (simp add: getPathMsg_def withinGoalRadius_yaw)

lemma getPathMsg_finish_when_reached:
  assumes "reached_goal s"
  shows "smoothed_goto_position (output_wp (getPathMsg_finish h s)) = goal s"
    and "new_yaw (getPathMsg_finish h s) = yaw_reached_goal s"
    and "position_waypoint (output_wp (getPathMsg_finish h s)) =
           createPoseMsg h (goal s) (yaw_reached_goal s)"
  using assms by (simp_all add: getPathMsg_finish_def Let_def)

lemma getPathMsg_when_reached:
  assumes "reached_goal (getPathMsg h clk s)"
  shows "smoothed_goto_position (output_wp (getPathMsg h clk s)) = goal s"
    and "new_yaw (getPathMsg h clk s) = yaw_reached_goal (getPathMsg h clk s)"
    and "position_waypoint (output_wp (getPathMsg h clk s)) =
           createPoseMsg h (goal s) (yaw_reached_goal (getPathMsg h clk s))"
proof -
  let ?w = "withinGoalRadius h (getPathMsg_smoothed h clk s)"
  have r: "reached_goal ?w" using assms by (simp add: getPathMsg_def)
  have g: "goal ?w = goal s" by simp
  have y: "yaw_reached_goal (getPathMsg h clk s) = yaw_reached_goal ?w"
    by (simp add: getPathMsg_def)
  show "smoothed_goto_position (output_wp (getPathMsg h clk s)) = goal s"
    using getPathMsg_finish_when_reached(1) [OF r, of h] g by (simp add: getPathMsg_def)
  show "new_yaw (getPathMsg h clk s) = yaw_reached_goal (getPathMsg h clk s)"
    using getPathMsg_finish_when_reached(2) [OF r, of h] y by (simp add: getPathMsg_def)
  show "position_waypoint (output_wp (getPathMsg h clk s)) =
           createPoseMsg h (goal s) (yaw_reached_goal (getPathMsg h clk s))"
    using getPathMsg_finish_when_reached(3) [OF r, of h] g y by (simp add: getPathMsg_def)
qed

text \<open>
  Claim C2. The flag \<open>reached_goal\<close> is a hysteresis boolean of the distance \<open>d\<close> between
  the current position and the goal. On every tick that assembles its message with
  \<^verbatim>\<open>getPathMsg\<close> (every mode but \<open>goBack\<close>), after the goal-radius step it is true
  exactly when \<open>d\<^sup>2\<close> is below \<open>goal_acceptance_radius_in\<^sup>2\<close>, or it was true before and \<open>d\<^sup>2\<close>
  does not exceed \<open>goal_acceptance_radius_out\<^sup>2\<close>. So it becomes true only when the squared
  distance falls below the inner radius squared, stays true for every distance of at most
  the outer radius, and becomes false only when the distance exceeds the outer radius. On
  the tick where it becomes true the current yaw is stored, and the stored yaw is kept
  while the flag stays true. While it is true the smoothed target is the goal itself and
  the commanded yaw, also in the pose sent out, is the stored yaw.
\<close>

theorem reached_goal_hysteresis:
  "(reached_goal (getPathMsg h clk s) =
      (squaredNorm3 (sub3 (goal s) (pose_position s)) <
         goal_acceptance_radius_in (param s) * goal_acceptance_radius_in (param s) \<or>
       reached_goal s \<and>
       \<not> squaredNorm3 (sub3 (goal s) (pose_position s)) >
         goal_acceptance_radius_out (param s) * goal_acceptance_radius_out (param s))) \<and>
   (\<not> reached_goal s \<and> reached_goal (getPathMsg h clk s) \<longrightarrow>
      squaredNorm3 (sub3 (goal s) (pose_position s)) <
        goal_acceptance_radius_in (param s) * goal_acceptance_radius_in (param s) \<and>
      yaw_reached_goal (getPathMsg h clk s) = getYaw h (orientation (WaypointGenerator.pose s))) \<and>
   (reached_goal s \<and>
    norm3 (sub3 (goal s) (pose_position s)) \<le> goal_acceptance_radius_out (param s) \<longrightarrow>
      reached_goal (getPathMsg h clk s)) \<and>
   (reached_goal s \<and> \<not> reached_goal (getPathMsg h clk s) \<longrightarrow>
      norm3 (sub3 (goal s) (pose_position s)) > goal_acceptance_radius_out (param s)) \<and>
   (reached_goal s \<longrightarrow> yaw_reached_goal (getPathMsg h clk s) = yaw_reached_goal s) \<and>
   (reached_goal (getPathMsg h clk s) \<longrightarrow>
      smoothed_goto_position (output_wp (getPathMsg h clk s)) = goal s \<and>
      new_yaw (getPathMsg h clk s) = yaw_reached_goal (getPathMsg h clk s) \<and>
      position_waypoint (output_wp (getPathMsg h clk s)) =
        createPoseMsg h (goal s) (yaw_reached_goal (getPathMsg h clk s)))"
proof -
  let ?d2 = "squaredNorm3 (sub3 (goal s) (pose_position s))"
  let ?d = "norm3 (sub3 (goal s) (pose_position s))"
  let ?rin = "goal_acceptance_radius_in (param s)"
  let ?rout = "goal_acceptance_radius_out (param s)"
  let ?r = "getPathMsg h clk s"
  have char: "reached_goal ?r = (?d2 < ?rin * ?rin \<or> reached_goal s \<and> \<not> ?d2 > ?rout * ?rout)"
    by (simp add: getPathMsg_reached withinGoalRadius_reached)
  have yaw: "yaw_reached_goal ?r =
      (if ?d2 < ?rin * ?rin \<and> \<not> reached_goal s
       then getYaw h (orientation (WaypointGenerator.pose s)) else yaw_reached_goal s)"
    by (simp add: getPathMsg_yaw_reached withinGoalRadius_yaw)
  have enter: "\<not> reached_goal s \<and> reached_goal ?r \<longrightarrow>
      ?d2 < ?rin * ?rin \<and> yaw_reached_goal ?r = getYaw h (orientation (WaypointGenerator.pose s))"
    using char yaw by auto
  have stay: "reached_goal s \<and> ?d \<le> ?rout \<longrightarrow> reached_goal ?r"
    using char norm3_le_imp_squared [of "sub3 (goal s) (pose_position s)" ?rout] by auto
  have leave: "reached_goal s \<and> \<not> reached_goal ?r \<longrightarrow> ?d > ?rout"
    using char squared_gt_imp_norm3 [of ?rout "sub3 (goal s) (pose_position s)"] by auto
  have keep: "reached_goal s \<longrightarrow> yaw_reached_goal ?r = yaw_reached_goal s"
    using yaw by simp
  have pinned: "reached_goal ?r \<longrightarrow>
      smoothed_goto_position (output_wp ?r) = goal s \<and>
      new_yaw ?r = yaw_reached_goal ?r \<and>
      position_waypoint (output_wp ?r) = createPoseMsg h (goal s) (yaw_reached_goal ?r)"
    using getPathMsg_when_reached [of h clk s] by blast
  show ?thesis
    using char enter stay leave keep pinned by blast
qed

text \<open>Three ticks of the scenario: arriving at the goal with the flag clear, drifting one
  unit away with the flag set (between the two radii \<open>0.5\<close> and \<open>1.5\<close>), and being ten units
  away with the flag set.\<close>

theorem reached_goal_hysteresis_witness:
  "reached_goal (getPathMsg h0 clk0
     (s0\<lparr>WaypointGenerator.pose := \<lparr>position = Vector3f 10 0 0, orientation = Quaternion 0 0 0 1\<rparr>,
         yaw_reached_goal := 3\<rparr>)) \<and>
   yaw_reached_goal (getPathMsg h0 clk0
     (s0\<lparr>WaypointGenerator.pose := \<lparr>position = Vector3f 10 0 0, orientation = Quaternion 0 0 0 1\<rparr>,
         yaw_reached_goal := 3\<rparr>)) = 0 \<and>
   smoothed_goto_position (output_wp (getPathMsg h0 clk0
     (s0\<lparr>WaypointGenerator.pose := \<lparr>position = Vector3f 10 0 0, orientation = Quaternion 0 0 0 1\<rparr>,
         yaw_reached_goal := 3\<rparr>))) = Vector3f 10 0 0 \<and>
   reached_goal (getPathMsg h0 clk0
     (s0\<lparr>WaypointGenerator.pose := \<lparr>position = Vector3f 9 0 0, orientation = Quaternion 0 0 0 1\<rparr>,
         reached_goal := True, yaw_reached_goal := 3\<rparr>)) \<and>
   new_yaw (getPathMsg h0 clk0
     (s0\<lparr>WaypointGenerator.pose := \<lparr>position = Vector3f 9 0 0, orientation = Quaternion 0 0 0 1\<rparr>,
         reached_goal := True, yaw_reached_goal := 3\<rparr>)) = 3 \<and>
   smoothed_goto_position (output_wp (getPathMsg h0 clk0
     (s0\<lparr>WaypointGenerator.pose := \<lparr>position = Vector3f 9 0 0, orientation = Quaternion 0 0 0 1\<rparr>,
         reached_goal := True, yaw_reached_goal := 3\<rparr>))) = Vector3f 10 0 0 \<and>
   \<not> reached_goal (getPathMsg h0 clk0 (s0\<lparr>reached_goal := True\<rparr>))"
proof -
  let ?sA = "s0\<lparr>WaypointGenerator.pose :=
                  \<lparr>position = Vector3f 10 0 0, orientation = Quaternion 0 0 0 1\<rparr>,
                yaw_reached_goal := 3\<rparr>"
  let ?sB = "s0\<lparr>WaypointGenerator.pose :=
                  \<lparr>position = Vector3f 9 0 0, orientation = Quaternion 0 0 0 1\<rparr>,
                reached_goal := True, yaw_reached_goal := 3\<rparr>"
  let ?sC = "s0\<lparr>reached_goal := True\<rparr>"
  have a1: "squaredNorm3 (sub3 (goal ?sA) (pose_position ?sA)) = 0"
    and a2: "\<not> reached_goal ?sA" and a3: "goal ?sA = Vector3f 10 0 0"
    and a4: "goal_acceptance_radius_in (param ?sA) = 1 / 2"
    and a5: "getYaw h0 (orientation (WaypointGenerator.pose ?sA)) = 0"
    by (simp_all add: s0_def h0_def squaredNorm3_def sub3_def)
  have b1: "norm3 (sub3 (goal ?sB) (pose_position ?sB)) = 1"
    and b2: "reached_goal ?sB" and b3: "goal ?sB = Vector3f 10 0 0"
    and b4: "goal_acceptance_radius_out (param ?sB) = 3 / 2"
    and b5: "yaw_reached_goal ?sB = 3"
    by (simp_all add: s0_def norm3_def squaredNorm3_def sub3_def)
  have c1: "squaredNorm3 (sub3 (goal s0) (pose_position s0)) = 100"
    and c2: "goal_acceptance_radius_in (param s0) = 1 / 2"
    and c3: "goal_acceptance_radius_out (param s0) = 3 / 2"
    by (simp_all add: s0_def pose0_def origin_def squaredNorm3_def sub3_def)
  have A: "reached_goal (getPathMsg h0 clk0 ?sA) \<and>
           yaw_reached_goal (getPathMsg h0 clk0 ?sA) = 0 \<and>
           smoothed_goto_position (output_wp (getPathMsg h0 clk0 ?sA)) = Vector3f 10 0 0"
    using reached_goal_hysteresis [of h0 clk0 ?sA] a1 a2 a3 a4 a5 by auto
  have B: "reached_goal (getPathMsg h0 clk0 ?sB) \<and>
           new_yaw (getPathMsg h0 clk0 ?sB) = 3 \<and>
           smoothed_goto_position (output_wp (getPathMsg h0 clk0 ?sB)) = Vector3f 10 0 0"
    using reached_goal_hysteresis [of h0 clk0 ?sB] b1 b2 b3 b4 b5 by auto
  have C: "\<not> reached_goal (getPathMsg h0 clk0 ?sC)"
    using reached_goal_hysteresis [of h0 clk0 ?sC, THEN conjunct1]
    by (simp add: c1 c2 c3)
  show ?thesis using A B C by blast
qed

subsection \<open>The tryPath strategy\<close>


lemma squaredNorm3_sdiv3: "c \<noteq> 0 \<Longrightarrow> squaredNorm3 (sdiv3 a c) = squaredNorm3 a / (c * c)"
  by (simp add: squaredNorm3_def sdiv3_def add_divide_distrib)

lemma norm3_normalized3: "squaredNorm3 a > 0 \<Longrightarrow> norm3 (normalized3 a) = 1"
proof -
  assume pos: "squaredNorm3 a > 0"
  then have nz: "sqrt (squaredNorm3 a) \<noteq> 0" by simp
  have sq: "sqrt (squaredNorm3 a) * sqrt (squaredNorm3 a) = squaredNorm3 a"
    using pos by simp
  have "squaredNorm3 (normalized3 a) = squaredNorm3 a / squaredNorm3 a"
    using pos squaredNorm3_sdiv3 [OF nz, of a] sq by (simp add: normalized3_def Let_def)
  then have "squaredNorm3 (normalized3 a) = 1" using pos by simp
  then show ?thesis by (simp add: norm3_def)
qed


lemma sub3_add3 [simp]: "sub3 (add3 p d) p = d"
  by (cases p; cases d) (simp add: sub3_def add3_def)

lemma getPathMsg_goto:
  "reach_altitude (planner_info s) \<Longrightarrow>
   goto_position (output_wp (getPathMsg h clk s)) = goto_position (output_wp s)"
  by (simp add: getPathMsg_def getPathMsg_smoothed_def Let_def)

lemma goFast_result:
  "waypointResult.waypoint_type (output_wp (goFast h clk s)) =
     waypointResult.waypoint_type (output_wp s)"
  "planner_info (goFast h clk s) = planner_info s"
  "curr_vel (goFast h clk s) = curr_vel s"
  "curr_yaw (goFast h clk s) = curr_yaw s"
  "reach_altitude (planner_info s) \<Longrightarrow>
   goto_position (output_wp (goFast h clk s)) =
     add3 (pose_position s) (normalized3 (sub3 (goal s) (pose_position s)))"
  by (simp_all add: goFast_def Let_def getPathMsg_goto)




















lemma use_tree_timing [simp]:
  "use_tree h clk (s\<lparr>output_wp := w, last_time := a, current_time := b\<rparr>) = use_tree h clk s"
  by (simp add: use_tree_def)


lemma calculateWaypoint_direct:
  assumes mode: "avoidanceOutput.waypoint_type (planner_info s) = direct"
  shows "output_wp (calculateWaypoint h clk s) =
         output_wp (goFast h clk
            (s\<lparr>output_wp := (output_wp s)\<lparr>waypointResult.waypoint_type := direct\<rparr>,
               last_time := current_time s,
               current_time := now_calculateWaypoint clk\<rparr>))"
  using mode by (simp add: calculateWaypoint_def Let_def goFast_result)





subsection \<open>Backing off\<close>

lemma backOff_goto:
  "goto_position (output_wp (backOff h s)) =
     Vector3f
       (vx (pose_position s) +
        0.5 * vx (normalized3 (Vector3f (vx (pose_position s) - vx (back_off_point (planner_info s)))
                                         (vy (pose_position s) - vy (back_off_point (planner_info s))) 0)))
       (vy (pose_position s) +
        0.5 * vy (normalized3 (Vector3f (vx (pose_position s) - vx (back_off_point (planner_info s)))
                                         (vy (pose_position s) - vy (back_off_point (planner_info s))) 0)))
       (vz (back_off_start_point (planner_info s)))"
  by (simp add: backOff_def Let_def transformPositionToVelocityWaypoint_def add3_def sub3_def
        smul3_def)

lemma backOff_position_waypoint:
  "position_waypoint (output_wp (backOff h s)) =
     createPoseMsg h (goto_position (output_wp (backOff h s))) (last_yaw s)"
  by (simp add: backOff_def Let_def transformPositionToVelocityWaypoint_def)

lemma calculateWaypoint_goBack:
  assumes "avoidanceOutput.waypoint_type (planner_info s) = goBack"
  shows "output_wp (calculateWaypoint h clk s) =
         output_wp (backOff h
            (s\<lparr>output_wp := (output_wp s)\<lparr>waypointResult.waypoint_type := goBack\<rparr>,
               last_time := current_time s,
               current_time := now_calculateWaypoint clk\<rparr>))"
  using assms by (simp add: calculateWaypoint_def Let_def)

lemma normalized3_horizontal:
  "vz (normalized3 (Vector3f a b 0)) = 0"
  by (simp add: normalized3_def Let_def sdiv3_def)

lemma horizontal_unit:
  assumes "a \<noteq> 0 \<or> b \<noteq> 0"
  shows "sqrt ((vx (normalized3 (Vector3f a b 0)))\<^sup>2 + (vy (normalized3 (Vector3f a b 0)))\<^sup>2) = 1"
proof -
  have pos: "squaredNorm3 (Vector3f a b 0) > 0"
    using assms sum_power2_gt_zero_iff [of a b]
    by (simp add: squaredNorm3_def power2_eq_square)
  have "norm3 (normalized3 (Vector3f a b 0)) = 1"
    by (rule norm3_normalized3 [OF pos])
  then show ?thesis
    using normalized3_horizontal [of a b]
    by (simp add: norm3_def squaredNorm3_def power2_eq_square)
qed

text \<open>
  Claim C7. In \<open>goBack\<close> mode the raw goal point is the current position plus one half of
  the normalised horizontal direction (z component set to zero before normalising) from
  the back-off point to the current position, with its z coordinate replaced by the
  altitude of the back-off start point. When the horizontal offset is not zero the
  direction is a horizontal unit vector and the horizontal step has length one half. The pose sent out is built from this point and
  the previous yaw.
\<close>

theorem goBack_half_step_at_start_altitude:
  assumes mode: "avoidanceOutput.waypoint_type (planner_info s) = goBack"
  shows
   "(\<exists>d. d = normalized3 (Vector3f (vx (pose_position s) - vx (back_off_point (planner_info s)))
                                   (vy (pose_position s) - vy (back_off_point (planner_info s))) 0) \<and>
         goto_position (output_wp (calculateWaypoint h clk s)) =
           Vector3f (vx (pose_position s) + 0.5 * vx d) (vy (pose_position s) + 0.5 * vy d)
                    (vz (back_off_start_point (planner_info s))) \<and>
         (vx (pose_position s) \<noteq> vx (back_off_point (planner_info s)) \<or>
          vy (pose_position s) \<noteq> vy (back_off_point (planner_info s)) \<longrightarrow>
            vz d = 0 \<and> sqrt ((vx d)\<^sup>2 + (vy d)\<^sup>2) = 1 \<and>
            sqrt ((vx (goto_position (output_wp (calculateWaypoint h clk s))) - vx (pose_position s))\<^sup>2 +
                  (vy (goto_position (output_wp (calculateWaypoint h clk s))) - vy (pose_position s))\<^sup>2)
              = 0.5)) \<and>
    waypointResult.waypoint_type (output_wp (calculateWaypoint h clk s)) = goBack \<and>
    position_waypoint (output_wp (calculateWaypoint h clk s)) =
      createPoseMsg h (goto_position (output_wp (calculateWaypoint h clk s))) (last_yaw s)"
proof -
  let ?s1 = "s\<lparr>output_wp := (output_wp s)\<lparr>waypointResult.waypoint_type := goBack\<rparr>,
               last_time := current_time s,
               current_time := now_calculateWaypoint clk\<rparr>"
  let ?a = "vx (pose_position s) - vx (back_off_point (planner_info s))"
  let ?b = "vy (pose_position s) - vy (back_off_point (planner_info s))"
  let ?d = "normalized3 (Vector3f ?a ?b 0)"
  let ?g = "goto_position (output_wp (calculateWaypoint h clk s))"
  have out: "output_wp (calculateWaypoint h clk s) = output_wp (backOff h ?s1)"
    by (rule calculateWaypoint_goBack [OF mode])
  have g: "?g = Vector3f (vx (pose_position s) + 0.5 * vx ?d) (vy (pose_position s) + 0.5 * vy ?d)
                    (vz (back_off_start_point (planner_info s)))"
    using backOff_goto [of h ?s1] out by simp
  have z: "vz ?d = 0" by (rule normalized3_horizontal)
  have len: "?a \<noteq> 0 \<or> ?b \<noteq> 0 \<longrightarrow>
       sqrt ((vx ?d)\<^sup>2 + (vy ?d)\<^sup>2) = 1 \<and>
       sqrt ((vx ?g - vx (pose_position s))\<^sup>2 + (vy ?g - vy (pose_position s))\<^sup>2) = 0.5"
  proof
    assume nz: "?a \<noteq> 0 \<or> ?b \<noteq> 0"
    have u: "sqrt ((vx ?d)\<^sup>2 + (vy ?d)\<^sup>2) = 1" by (rule horizontal_unit [OF nz])
    have "(vx ?g - vx (pose_position s))\<^sup>2 + (vy ?g - vy (pose_position s))\<^sup>2 =
          (1 / 2)\<^sup>2 * ((vx ?d)\<^sup>2 + (vy ?d)\<^sup>2)"
      by (simp add: g power2_eq_square algebra_simps)
    then have "sqrt ((vx ?g - vx (pose_position s))\<^sup>2 + (vy ?g - vy (pose_position s))\<^sup>2) =
          sqrt ((1 / 2)\<^sup>2) * sqrt ((vx ?d)\<^sup>2 + (vy ?d)\<^sup>2)"
      by (simp only: real_sqrt_mult)
    then show "sqrt ((vx ?d)\<^sup>2 + (vy ?d)\<^sup>2) = 1 \<and>
       sqrt ((vx ?g - vx (pose_position s))\<^sup>2 + (vy ?g - vy (pose_position s))\<^sup>2) = 0.5"
      using u by simp
  qed
  have label: "waypointResult.waypoint_type (output_wp (calculateWaypoint h clk s)) = goBack"
    using out by (simp add: backOff_def Let_def transformPositionToVelocityWaypoint_def)
  have pw: "position_waypoint (output_wp (calculateWaypoint h clk s)) = createPoseMsg h ?g (last_yaw s)"
    using backOff_position_waypoint [of h ?s1] out by simp
  show ?thesis using g z len label pw by auto
qed

text \<open>The scenario of the specification: back-off point \<open>(1, 0, 2)\<close>, current position
  \<open>(0, 0, 2)\<close>, back-off start altitude 5.\<close>

theorem goBack_half_step_at_start_altitude_witness:
  "goto_position (output_wp (calculateWaypoint h0 clk0
     (s0\<lparr>planner_info := info0\<lparr>avoidanceOutput.waypoint_type := goBack\<rparr>,
         WaypointGenerator.pose := \<lparr>position = Vector3f 0 0 2, orientation = Quaternion 0 0 0 1\<rparr>\<rparr>)))
   = Vector3f (- 0.5) 0 5 \<and>
   normalized3 (Vector3f (0 - 1) (0 - 0) 0) = Vector3f (- 1) 0 0 \<and>
   back_off_point info0 = Vector3f 1 0 2 \<and> vz (back_off_start_point info0) = 5"
proof -
  let ?s = "s0\<lparr>planner_info := info0\<lparr>avoidanceOutput.waypoint_type := goBack\<rparr>,
         WaypointGenerator.pose := \<lparr>position = Vector3f 0 0 2, orientation = Quaternion 0 0 0 1\<rparr>\<rparr>"
  have mode: "avoidanceOutput.waypoint_type (planner_info ?s) = goBack" by simp
  have n: "normalized3 (Vector3f (0 - 1) (0 - 0) 0) = Vector3f (- 1) 0 0"
    by (simp add: normalized3_def Let_def squaredNorm3_def sdiv3_def)
  have f: "pose_position ?s = Vector3f 0 0 2" "back_off_point (planner_info ?s) = Vector3f 1 0 2"
    "back_off_start_point (planner_info ?s) = Vector3f 0 0 5"
    by (simp_all add: info0_def)
  show ?thesis
    using goBack_half_step_at_start_altitude [OF mode, of h0 clk0, THEN conjunct1] n f
    by (auto simp add: info0_def)
qed

subsection \<open>The tick interval\<close>

lemma toSec_pos_iff: "0 < toSec d \<longleftrightarrow> 0 < d"
  by (simp add: toSec_def)

lemma getPathMsg_dt_cases:
  "getPathMsg_dt s =
     (if 0 < current_time s - last_time s then toSec (current_time s - last_time s)
      else 0.004)"
  by (simp add: getPathMsg_dt_def Let_def toSec_pos_iff)

lemma getPathMsg_dt_pos: "0 < getPathMsg_dt s"
  by (simp add: getPathMsg_dt_cases toSec_pos_iff)

text \<open>
  Claim C8. \<^verbatim>\<open>getPathMsg\<close> measures the time between the previous and the current tick
  (\<open>current_time - last_time\<close>, which \<^verbatim>\<open>calculateWaypoint\<close> has set from the clock). On
  every tick that smooths (the altitude flag of the directive is set), the smoother is
  called with \<open>dt\<close> equal to the measured difference when that is positive, and with the
  fixed default of \<open>0.004\<close> seconds when it is zero or negative. So the \<open>dt\<close> that the
  smoother divides by is always positive.
\<close>

theorem smoother_dt_default:
  assumes alt: "reach_altitude (planner_info s)"
  shows
   "(let s2 = s\<lparr>output_wp := (output_wp s)\<lparr>adapted_goto_position :=
                   goto_position (output_wp s)\<rparr>,
                 new_yaw := nextYaw h (WaypointGenerator.pose s) (goto_position (output_wp s))\<rparr>;
         s3 = adaptSpeed h clk s2;
         s4 = s3\<lparr>output_wp := (output_wp s3)\<lparr>smoothed_goto_position :=
                   adapted_goto_position (output_wp s3)\<rparr>\<rparr>;
         delta = current_time s - last_time s;
         dt = (if 0 < delta then toSec delta else 0.004)
     in getPathMsg h clk s =
          getPathMsg_finish h (withinGoalRadius h (smoothWaypoint dt s4)) \<and>
        0 < dt \<and>
        (delta \<le> 0 \<longrightarrow> dt = 0.004) \<and>
        (0 < delta \<longrightarrow> dt = toSec delta \<and> dt = real_of_int delta / 1000000000))"
proof -
  define s2 where "s2 = s\<lparr>output_wp := (output_wp s)\<lparr>adapted_goto_position :=
                   goto_position (output_wp s)\<rparr>,
                 new_yaw := nextYaw h (WaypointGenerator.pose s) (goto_position (output_wp s))\<rparr>"
  define s3 where "s3 = adaptSpeed h clk s2"
  define s4 where "s4 = s3\<lparr>output_wp := (output_wp s3)\<lparr>smoothed_goto_position :=
                   adapted_goto_position (output_wp s3)\<rparr>\<rparr>"
  define delta where "delta = current_time s - last_time s"
  define dt where "dt = (if 0 < delta then toSec delta else 0.004)"
  have alt4: "reach_altitude (planner_info s4)"
    using alt by (simp add: s4_def s3_def s2_def)
  have dt_eq: "getPathMsg_dt (s\<lparr>output_wp := (output_wp s)\<lparr>adapted_goto_position :=
                   goto_position (output_wp s)\<rparr>\<rparr>) = dt"
    by (simp add: getPathMsg_dt_cases dt_def delta_def)
  have sm: "getPathMsg_smoothed h clk s = smoothWaypoint dt s4"
    using alt4 dt_eq
    by (simp add: getPathMsg_smoothed_def Let_def s4_def s3_def s2_def)
  have pos: "0 < dt" by (simp add: dt_def toSec_pos_iff)
  have "getPathMsg h clk s = getPathMsg_finish h (withinGoalRadius h (smoothWaypoint dt s4)) \<and>
        0 < dt \<and> (delta \<le> 0 \<longrightarrow> dt = 0.004) \<and>
        (0 < delta \<longrightarrow> dt = toSec delta \<and> dt = real_of_int delta / 1000000000)"
    using sm pos by (simp add: getPathMsg_def dt_def toSec_def)
  then show ?thesis
    unfolding Let_def s2_def [symmetric] s3_def [symmetric] s4_def [symmetric]
      delta_def [symmetric] dt_def [symmetric] .
qed

lemma normalized2_east: "0 < a \<Longrightarrow> normalized2 (Vector2f a 0) = Vector2f 1 0"
  by (simp add: normalized2_def Let_def squaredNorm2_def sdiv2_def)

lemma normalized3_east: "0 < a \<Longrightarrow> normalized3 (Vector3f a 0 0) = Vector3f 1 0 0"
  by (simp add: normalized3_def Let_def squaredNorm3_def sdiv3_def)

lemma norm3_east: "0 \<le> a \<Longrightarrow> norm3 (Vector3f a 0 0) = a"
  by (simp add: norm3_def squaredNorm3_def)

lemmas scenario_defs = s0_def info0_def pose0_def origin_def clk0_def h0_def
  velocityLinear_ramp_def

lemmas step_defs = adaptSpeed_def adaptSpeed_envelope_def adaptSpeed_FOV_def
  adaptSpeed_delay_def adaptSpeed_closeToGoal_def adaptSpeed_setWaypoint_def
  z_index_of_def angle_diff_of_def float_to_int_def toSec_def
  smoothWaypoint_def jerk_diff_def accel_cur_def vel_sp_xy_def vel_cur_xy_def max_jerk_def
  withinGoalRadius_def getPathMsg_finish_def transformPositionToVelocityWaypoint_def
  add3_def sub3_def smul3_def cwiseAbs_def add2_def sub2_def smul2_def sdiv2_def
  squaredNorm2_def squaredNorm3_def

text \<open>Two ticks of the scenario with the raw goal point one unit east and the previous
  waypoint at the origin: one whose clock went back by a second, smoothed with the
  default interval (the jerk is limited to 500, which moves the setpoint by
  \<open>500 \<cdot> 0.004\<^sup>3\<close>), and one a second after the previous tick.\<close>

theorem smoother_dt_default_witness:
  "smoothed_goto_position (output_wp (getPathMsg h0 clk0
     (s0\<lparr>output_wp := (output_wp s0)\<lparr>goto_position := Vector3f 1 0 0\<rparr>,
         last_time := 2000000000\<rparr>))) = Vector3f (1 / 31250) 0 0 \<and>
   smoothed_goto_position (output_wp (getPathMsg h0 clk0
     (s0\<lparr>output_wp := (output_wp s0)\<lparr>goto_position := Vector3f 1 0 0\<rparr>\<rparr>)))
     = Vector3f 2 0 0 \<and>
   current_time s0 - 2000000000 \<le> 0 \<and> 0 < current_time s0 - last_time s0"
proof -
  let ?early = "s0\<lparr>output_wp := (output_wp s0)\<lparr>goto_position := Vector3f 1 0 0\<rparr>,
                   last_time := 2000000000\<rparr>"
  let ?fwd = "s0\<lparr>output_wp := (output_wp s0)\<lparr>goto_position := Vector3f 1 0 0\<rparr>\<rparr>"
  have alt: "reach_altitude (planner_info ?early)" "reach_altitude (planner_info ?fwd)"
    by (simp_all add: s0_def info0_def)
  have A: "smoothed_goto_position (output_wp (getPathMsg h0 clk0 ?early)) = Vector3f (1 / 31250) 0 0"
    using smoother_dt_default [OF alt(1), of h0 clk0, unfolded Let_def, THEN conjunct1]
    by (simp add: scenario_defs step_defs normalized3_east norm3_east normalized2_east)
  have B: "smoothed_goto_position (output_wp (getPathMsg h0 clk0 ?fwd)) = Vector3f 2 0 0"
    using smoother_dt_default [OF alt(2), of h0 clk0, unfolded Let_def, THEN conjunct1]
    by (simp add: scenario_defs step_defs normalized3_east norm3_east normalized2_east)
  have C: "current_time s0 - 2000000000 \<le> 0 \<and> 0 < current_time s0 - last_time s0"
    by (simp add: s0_def)
  show ?thesis using A B C by blast
qed

subsection \<open>Slowing down outside the field of view\<close>

lemma ind_dist_loop_fold:
  "ind_dist_loop xs z d = fold min (map (\<lambda>i. abs (i - z)) xs) d"
proof (induction xs arbitrary: d)
  case Nil
  show ?case by simp
next
  case (Cons i rest)
  have "(if abs (i - z) < d then abs (i - z) else d) = min (abs (i - z)) d"
    by (simp add: min_def)
  then show ?case using Cons.IH by simp
qed

text \<open>The loop returns the smallest of its start value and the index distances.\<close>

lemma ind_dist_loop_Min:
  "ind_dist_loop xs z d = Min (insert d ((\<lambda>i. abs (i - z)) ` set xs))"
proof -
  have "Min (set (d # map (\<lambda>i. abs (i - z)) xs)) = fold min (map (\<lambda>i. abs (i - z)) xs) d"
    by (rule Min.set_eq_fold)
  then show ?thesis by (simp add: ind_dist_loop_fold)
qed

lemma angle_diff_of_bounds: "0 \<le> angle_diff_of h s \<and> angle_diff_of h s \<le> 30"
  by (simp add: angle_diff_of_def Let_def)

lemma envelope_reads [simp]:
  "z_index_of h (adaptSpeed_envelope h clk s) = z_index_of h s"
  "angle_diff_of h (adaptSpeed_envelope h clk s) = angle_diff_of h s"
  by (simp_all add: z_index_of_def angle_diff_of_def)

lemma FOV_outside:
  assumes "z_index_of h s \<notin> set (z_FOV_idx s)" "reach_altitude (planner_info s)"
    "\<not> reached_goal s"
  shows "speed (adaptSpeed_FOV h clk s) = speed s * (1 - angle_diff_of h s / 30)"
    and "only_yawed (adaptSpeed_FOV h clk s) = (speed s * (1 - angle_diff_of h s / 30) < 0.01)"
    and "waypoint_outside_FOV (adaptSpeed_FOV h clk s)"
  using assms by (simp_all add: adaptSpeed_FOV_def Let_def z_index_of_def angle_diff_of_def)

lemma later_blocks_keep [simp]:
  "waypoint_outside_FOV (adaptSpeed_delay clk s) = waypoint_outside_FOV s"
  "waypoint_outside_FOV (adaptSpeed_closeToGoal s) = waypoint_outside_FOV s"
  "waypoint_outside_FOV (adaptSpeed_setWaypoint s) = waypoint_outside_FOV s"
  by (simp_all add: adaptSpeed_delay_def adaptSpeed_closeToGoal_def adaptSpeed_setWaypoint_def
        Let_def)

text \<open>
  What the code computes. When the azimuth index of the candidate waypoint is not among
  the visible indices, the directive reports the altitude as reached and the goal is not
  reached, the speed of the envelope is multiplied by \<open>1 - angle_diff / 30\<close>, where
  \<open>angle_diff\<close> is the resolution times the smallest plain difference between the
  waypoint's index and a visible index (the search starts from 100), capped at 30. The
  yaw-only flag is then set exactly when the scaled speed is below \<open>0.01\<close>.
\<close>

lemma outside_FOV_scales_speed:
  assumes out: "z_index_of h s \<notin> set (z_FOV_idx s)"
    and alt: "reach_altitude (planner_info s)"
    and nr: "\<not> reached_goal s"
  shows
   "(let base = speed (adaptSpeed_envelope h clk s);
         ind_dist = Min (insert 100 ((\<lambda>i. abs (i - z_index_of h s)) ` set (z_FOV_idx s)));
         angle_diff = min (real_of_int (abs (ALPHA_RES h * ind_dist))) 30;
         scaled = speed (adaptSpeed_FOV h clk (adaptSpeed_envelope h clk s))
     in scaled = base * (1 - angle_diff / 30) \<and>
        0 \<le> angle_diff \<and> angle_diff \<le> 30 \<and>
        only_yawed (adaptSpeed h clk s) = (scaled < 0.01) \<and>
        waypoint_outside_FOV (adaptSpeed h clk s) \<and>
        (30 \<le> abs (ALPHA_RES h * ind_dist) \<longrightarrow> scaled = 0 \<and> only_yawed (adaptSpeed h clk s)))"
proof -
  define e where "e = adaptSpeed_envelope h clk s"
  define ind_dist where
    "ind_dist = Min (insert 100 ((\<lambda>i. abs (i - z_index_of h s)) ` set (z_FOV_idx s)))"
  define angle_diff where "angle_diff = min (real_of_int (abs (ALPHA_RES h * ind_dist))) 30"
  define scaled where "scaled = speed (adaptSpeed_FOV h clk e)"
  have pre: "z_index_of h e \<notin> set (z_FOV_idx e)" "reach_altitude (planner_info e)"
    "\<not> reached_goal e"
    using out alt nr by (simp_all add: e_def)
  have ad: "angle_diff_of h e = angle_diff"
    by (simp add: e_def angle_diff_of_def Let_def ind_dist_loop_Min angle_diff_def ind_dist_def)
  have sc: "scaled = speed e * (1 - angle_diff / 30)"
    using FOV_outside(1) [OF pre, of clk] ad by (simp add: scaled_def)
  have oy: "only_yawed (adaptSpeed h clk s) = (scaled < 0.01)"
    using FOV_outside(2) [OF pre, of clk] ad sc by (simp add: adaptSpeed_def e_def)
  have wo: "waypoint_outside_FOV (adaptSpeed h clk s)"
    using FOV_outside(3) [OF pre, of clk] by (simp add: adaptSpeed_def e_def)
  have bounds: "0 \<le> angle_diff \<and> angle_diff \<le> 30"
    by (simp add: angle_diff_def)
  have zero: "30 \<le> abs (ALPHA_RES h * ind_dist) \<longrightarrow> scaled = 0 \<and> only_yawed (adaptSpeed h clk s)"
  proof
    assume "30 \<le> abs (ALPHA_RES h * ind_dist)"
    then have "30 \<le> real_of_int (abs (ALPHA_RES h * ind_dist))" by linarith
    then have "angle_diff = 30" by (simp add: angle_diff_def)
    then have "scaled = 0" using sc by simp
    then show "scaled = 0 \<and> only_yawed (adaptSpeed h clk s)" using oy by simp
  qed
  have "scaled = speed e * (1 - angle_diff / 30) \<and>
        0 \<le> angle_diff \<and> angle_diff \<le> 30 \<and>
        only_yawed (adaptSpeed h clk s) = (scaled < 0.01) \<and>
        waypoint_outside_FOV (adaptSpeed h clk s) \<and>
        (30 \<le> abs (ALPHA_RES h * ind_dist) \<longrightarrow> scaled = 0 \<and> only_yawed (adaptSpeed h clk s))"
    using sc bounds oy wo zero by blast
  then show ?thesis
    unfolding Let_def e_def [symmetric] ind_dist_def [symmetric] angle_diff_def [symmetric]
      scaled_def [symmetric] .
qed

text \<open>In the scenario the waypoint has azimuth index 45. With the visible indices ending
  at 40, five indices of 6 degrees away, the envelope speed 2 is scaled to 0 and the
  yaw-only flag is set. With the visible indices ending at 43 the speed is scaled by
  \<open>1 - 12/30\<close> and the flag is clear.\<close>

lemma outside_FOV_scales_speed_example:
  "speed (adaptSpeed_FOV h0 clk0 (adaptSpeed_envelope h0 clk0
      (s0\<lparr>z_FOV_idx := [36, 37, 38, 39, 40]\<rparr>))) = 0 \<and>
   only_yawed (adaptSpeed h0 clk0 (s0\<lparr>z_FOV_idx := [36, 37, 38, 39, 40]\<rparr>)) \<and>
   speed (adaptSpeed_FOV h0 clk0 (adaptSpeed_envelope h0 clk0
      (s0\<lparr>z_FOV_idx := [39, 40, 41, 42, 43]\<rparr>))) = 6 / 5 \<and>
   \<not> only_yawed (adaptSpeed h0 clk0 (s0\<lparr>z_FOV_idx := [39, 40, 41, 42, 43]\<rparr>)) \<and>
   z_index_of h0 s0 = 45 \<and> ALPHA_RES h0 = 6"
proof -
  let ?far = "s0\<lparr>z_FOV_idx := [36, 37, 38, 39, 40]\<rparr>"
  let ?near = "s0\<lparr>z_FOV_idx := [39, 40, 41, 42, 43]\<rparr>"
  have z: "z_index_of h0 ?far = 45" "z_index_of h0 ?near = 45" "z_index_of h0 s0 = 45"
    by (simp_all add: z_index_of_def h0_def)
  have res: "ALPHA_RES h0 = 6" by (simp add: h0_def)
  have pre_far: "z_index_of h0 ?far \<notin> set (z_FOV_idx ?far)"
    "reach_altitude (planner_info ?far)" "\<not> reached_goal ?far"
    by (simp add: z, simp_all add: s0_def info0_def)
  have pre_near: "z_index_of h0 ?near \<notin> set (z_FOV_idx ?near)"
    "reach_altitude (planner_info ?near)" "\<not> reached_goal ?near"
    by (simp add: z, simp_all add: s0_def info0_def)
  have base: "speed (adaptSpeed_envelope h0 clk0 ?far) = 2"
    "speed (adaptSpeed_envelope h0 clk0 ?near) = 2"
    by (simp_all add: adaptSpeed_envelope_def Let_def scenario_defs toSec_def)
  have A: "speed (adaptSpeed_FOV h0 clk0 (adaptSpeed_envelope h0 clk0 ?far)) = 0 \<and>
           only_yawed (adaptSpeed h0 clk0 ?far)"
    using outside_FOV_scales_speed [OF pre_far, of clk0, unfolded Let_def]
    by (simp add: z res base)
  have B: "speed (adaptSpeed_FOV h0 clk0 (adaptSpeed_envelope h0 clk0 ?near)) = 6 / 5 \<and>
           \<not> only_yawed (adaptSpeed h0 clk0 ?near)"
    using outside_FOV_scales_speed [OF pre_near, of clk0, unfolded Let_def]
    by (simp add: z res base)
  show ?thesis using A B z(3) res by blast
qed

subsection \<open>The jerk limit\<close>

lemma squaredNorm2_nonneg: "0 \<le> squaredNorm2 a"
  by (simp add: squaredNorm2_def)

lemma squaredNorm2_smul2: "squaredNorm2 (smul2 c a) = c * c * squaredNorm2 a"
  by (simp add: squaredNorm2_def smul2_def algebra_simps)

lemma squaredNorm2_sdiv2: "c \<noteq> 0 \<Longrightarrow> squaredNorm2 (sdiv2 a c) = squaredNorm2 a / (c * c)"
  by (simp add: squaredNorm2_def sdiv2_def add_divide_distrib)

lemma norm2_normalized2: "squaredNorm2 a > 0 \<Longrightarrow> norm2 (normalized2 a) = 1"
proof -
  assume pos: "squaredNorm2 a > 0"
  then have nz: "sqrt (squaredNorm2 a) \<noteq> 0" by simp
  have sq: "sqrt (squaredNorm2 a) * sqrt (squaredNorm2 a) = squaredNorm2 a"
    using pos by simp
  have "squaredNorm2 (normalized2 a) = squaredNorm2 a / squaredNorm2 a"
    using pos squaredNorm2_sdiv2 [OF nz, of a] sq by (simp add: normalized2_def Let_def)
  then have "squaredNorm2 (normalized2 a) = 1" using pos by simp
  then show ?thesis by (simp add: norm2_def)
qed

lemma norm2_smul2: "norm2 (smul2 c a) = abs c * norm2 a"
  by (simp add: norm2_def squaredNorm2_smul2 real_sqrt_mult)

lemma norm2_le_of_squared:
  assumes "squaredNorm2 a \<le> b * b" "0 \<le> b"
  shows "norm2 a \<le> b"
proof -
  have "sqrt (squaredNorm2 a) \<le> sqrt (b * b)"
    using assms(1) by (rule real_sqrt_le_mono)
  then show ?thesis using assms(2) by (simp add: norm2_def)
qed

text \<open>Reading the jerk back from a position that was integrated from a velocity
  setpoint gives the jerk of that setpoint.\<close>

lemma implied_jerk_of_velocity:
  assumes "dt \<noteq> 0"
  shows "implied_jerk dt s
           (Vector3f (vx (position (last_position_waypoint s)) + ux v * dt)
                     (vy (position (last_position_waypoint s)) + uy v * dt) z) =
         sdiv2 (sub2 (sdiv2 (sub2 v (vel_cur_xy s)) dt) (accel_cur dt s)) dt"
proof -
  have "Vector2f (ux v * dt / dt) (uy v * dt / dt) = v"
    using assms by (cases v) simp
  then show ?thesis by (simp add: implied_jerk_def Let_def)
qed

lemma jerk_diff_eq:
  "jerk_diff dt s = sdiv2 (sub2 (sdiv2 (sub2 (vel_sp_xy dt s) (vel_cur_xy s)) dt) (accel_cur dt s)) dt"
  by (simp add: jerk_diff_def Let_def)

lemma reintegrated_jerk:
  assumes "dt \<noteq> 0"
  shows "sdiv2 (sub2 (sdiv2 (sub2 (add2 (smul2 dt (add2 (smul2 dt j) a)) v) v) dt) a) dt = j"
  using assms by (cases j; cases a; cases v) (simp add: sdiv2_def sub2_def add2_def smul2_def)

lemma smoothWaypoint_position:
  "smoothed_goto_position (output_wp (smoothWaypoint dt s)) =
    (let v = (if squaredNorm2 (jerk_diff dt s) > max_jerk s * max_jerk s \<and> max_jerk s > 0.001
              then add2 (smul2 dt (add2 (smul2 dt (smul2 (max_jerk s) (normalized2 (jerk_diff dt s))))
                                        (accel_cur dt s))) (vel_cur_xy s)
              else vel_sp_xy dt s)
     in Vector3f (vx (position (last_position_waypoint s)) + ux v * dt)
                 (vy (position (last_position_waypoint s)) + uy v * dt)
                 (vz (adapted_goto_position (output_wp s))))"
  by (simp add: smoothWaypoint_def Let_def)

lemma smoothWaypoint_jerk:
  assumes "dt \<noteq> 0"
  shows "implied_jerk dt s (smoothed_goto_position (output_wp (smoothWaypoint dt s))) =
     (if squaredNorm2 (jerk_diff dt s) > max_jerk s * max_jerk s \<and> max_jerk s > 0.001
      then smul2 (max_jerk s) (normalized2 (jerk_diff dt s))
      else jerk_diff dt s)"
  using assms
  by (simp add: smoothWaypoint_position Let_def implied_jerk_of_velocity reintegrated_jerk
        jerk_diff_eq)

lemma unclamped_position:
  assumes "dt \<noteq> 0"
  shows "vx (position (last_position_waypoint s)) + ux (vel_sp_xy dt s) * dt =
           vx (adapted_goto_position (output_wp s))"
    and "vy (position (last_position_waypoint s)) + uy (vel_sp_xy dt s) * dt =
           vy (adapted_goto_position (output_wp s))"
  using assms by (simp_all add: vel_sp_xy_def)

text \<open>
  Claim C5, as the code has it. The maximum jerk is the configured maximum; when the
  configured minimum exceeds \<open>0.001\<close> it is the configured maximum times the current
  horizontal speed, but at least the configured minimum. For a positive \<open>dt\<close> and a
  maximum jerk above \<open>0.001\<close>, the jerk implied by the smoothed setpoint never exceeds the
  maximum jerk: a raw jerk whose squared norm exceeds the squared maximum is replaced by
  the maximum times its unit direction and integrated through acceleration and velocity
  to the horizontal position, and any other raw jerk leaves the adapted goal point as the
  horizontal setpoint. With a maximum jerk of \<open>0.001\<close> or less the limit is switched off:
  the horizontal setpoint is the adapted goal point, whatever its jerk. The vertical
  coordinate is always that of the adapted goal point.
\<close>

theorem jerk_limited_when_enabled:
  assumes dt: "0 < dt"
  shows
   "(let bound = max_jerk s;
         raw = jerk_diff dt s;
         p = smoothed_goto_position (output_wp (smoothWaypoint dt s));
         j = implied_jerk dt s p
     in bound = (if min_jerk_limit_param s > 0.001
                 then max (max_jerk_limit_param s * norm2 (vel_cur_xy s)) (min_jerk_limit_param s)
                 else max_jerk_limit_param s) \<and>
        (bound > 0.001 \<longrightarrow> norm2 j \<le> bound) \<and>
        (bound > 0.001 \<and> squaredNorm2 raw > bound * bound \<longrightarrow>
           j = smul2 bound (normalized2 raw) \<and> norm2 j = bound \<and>
           vx p = vx (position (last_position_waypoint s)) +
                  ux (add2 (smul2 dt (add2 (smul2 dt j) (accel_cur dt s))) (vel_cur_xy s)) * dt \<and>
           vy p = vy (position (last_position_waypoint s)) +
                  uy (add2 (smul2 dt (add2 (smul2 dt j) (accel_cur dt s))) (vel_cur_xy s)) * dt) \<and>
        (\<not> (bound > 0.001 \<and> squaredNorm2 raw > bound * bound) \<longrightarrow>
           j = raw \<and>
           vx p = vx (adapted_goto_position (output_wp s)) \<and>
           vy p = vy (adapted_goto_position (output_wp s))) \<and>
        vz p = vz (adapted_goto_position (output_wp s)))"
proof -
  define bound where "bound = max_jerk s"
  define raw where "raw = jerk_diff dt s"
  define p where "p = smoothed_goto_position (output_wp (smoothWaypoint dt s))"
  define j where "j = implied_jerk dt s p"
  have nz: "dt \<noteq> 0" using dt by simp
  have jv: "j = (if squaredNorm2 raw > bound * bound \<and> bound > 0.001
                 then smul2 bound (normalized2 raw) else raw)"
    using smoothWaypoint_jerk [OF nz, of s] by (simp add: j_def p_def raw_def bound_def)
  have b: "bound = (if min_jerk_limit_param s > 0.001
                 then max (max_jerk_limit_param s * norm2 (vel_cur_xy s)) (min_jerk_limit_param s)
                 else max_jerk_limit_param s)"
    by (simp add: bound_def max_jerk_def Let_def max_def)
  have clamped: "bound > 0.001 \<and> squaredNorm2 raw > bound * bound \<longrightarrow>
           j = smul2 bound (normalized2 raw) \<and> norm2 j = bound \<and>
           vx p = vx (position (last_position_waypoint s)) +
                  ux (add2 (smul2 dt (add2 (smul2 dt j) (accel_cur dt s))) (vel_cur_xy s)) * dt \<and>
           vy p = vy (position (last_position_waypoint s)) +
                  uy (add2 (smul2 dt (add2 (smul2 dt j) (accel_cur dt s))) (vel_cur_xy s)) * dt"
  proof
    assume c: "bound > 0.001 \<and> squaredNorm2 raw > bound * bound"
    then have je: "j = smul2 bound (normalized2 raw)" using jv by simp
    have "0 \<le> bound * bound" by simp
    then have rp: "squaredNorm2 raw > 0" using c by linarith
    have nj: "norm2 j = bound"
      using c norm2_normalized2 [OF rp] by (simp add: je norm2_smul2)
    have px: "vx p = vx (position (last_position_waypoint s)) +
                  ux (add2 (smul2 dt (add2 (smul2 dt j) (accel_cur dt s))) (vel_cur_xy s)) * dt"
      and py: "vy p = vy (position (last_position_waypoint s)) +
                  uy (add2 (smul2 dt (add2 (smul2 dt j) (accel_cur dt s))) (vel_cur_xy s)) * dt"
      using c by (simp_all add: p_def smoothWaypoint_position Let_def je raw_def bound_def)
    show "j = smul2 bound (normalized2 raw) \<and> norm2 j = bound \<and>
           vx p = vx (position (last_position_waypoint s)) +
                  ux (add2 (smul2 dt (add2 (smul2 dt j) (accel_cur dt s))) (vel_cur_xy s)) * dt \<and>
           vy p = vy (position (last_position_waypoint s)) +
                  uy (add2 (smul2 dt (add2 (smul2 dt j) (accel_cur dt s))) (vel_cur_xy s)) * dt"
      using je nj px py by simp
  qed
  have passed: "\<not> (bound > 0.001 \<and> squaredNorm2 raw > bound * bound) \<longrightarrow>
           j = raw \<and>
           vx p = vx (adapted_goto_position (output_wp s)) \<and>
           vy p = vy (adapted_goto_position (output_wp s))"
  proof
    assume n: "\<not> (bound > 0.001 \<and> squaredNorm2 raw > bound * bound)"
    then have je: "j = raw" using jv by auto
    have "vx p = vx (adapted_goto_position (output_wp s)) \<and>
          vy p = vy (adapted_goto_position (output_wp s))"
      using n unclamped_position [OF nz, of s]
      by (auto simp add: p_def smoothWaypoint_position Let_def raw_def bound_def)
    then show "j = raw \<and>
           vx p = vx (adapted_goto_position (output_wp s)) \<and>
           vy p = vy (adapted_goto_position (output_wp s))"
      using je by simp
  qed
  have limit: "bound > 0.001 \<longrightarrow> norm2 j \<le> bound"
  proof
    assume on: "bound > 0.001"
    show "norm2 j \<le> bound"
    proof (cases "squaredNorm2 raw > bound * bound")
      case True
      then have "norm2 j = bound" using clamped on by blast
      then show ?thesis by simp
    next
      case False
      then have "j = raw" using passed by simp
      moreover have "norm2 raw \<le> bound"
        using False on by (intro norm2_le_of_squared) auto
      ultimately show ?thesis by simp
    qed
  qed
  have z: "vz p = vz (adapted_goto_position (output_wp s))"
    by (simp add: p_def smoothWaypoint_position Let_def)
  have "bound = (if min_jerk_limit_param s > 0.001
                 then max (max_jerk_limit_param s * norm2 (vel_cur_xy s)) (min_jerk_limit_param s)
                 else max_jerk_limit_param s) \<and>
        (bound > 0.001 \<longrightarrow> norm2 j \<le> bound) \<and>
        (bound > 0.001 \<and> squaredNorm2 raw > bound * bound \<longrightarrow>
           j = smul2 bound (normalized2 raw) \<and> norm2 j = bound \<and>
           vx p = vx (position (last_position_waypoint s)) +
                  ux (add2 (smul2 dt (add2 (smul2 dt j) (accel_cur dt s))) (vel_cur_xy s)) * dt \<and>
           vy p = vy (position (last_position_waypoint s)) +
                  uy (add2 (smul2 dt (add2 (smul2 dt j) (accel_cur dt s))) (vel_cur_xy s)) * dt) \<and>
        (\<not> (bound > 0.001 \<and> squaredNorm2 raw > bound * bound) \<longrightarrow>
           j = raw \<and>
           vx p = vx (adapted_goto_position (output_wp s)) \<and>
           vy p = vy (adapted_goto_position (output_wp s))) \<and>
        vz p = vz (adapted_goto_position (output_wp s))"
    using b limit clamped passed z by blast
  then show ?thesis
    unfolding Let_def bound_def [symmetric] raw_def [symmetric] p_def [symmetric]
      j_def [symmetric] .
qed

lemma norm2_east: "0 \<le> a \<Longrightarrow> norm2 (Vector2f a 0) = a"
  by (simp add: norm2_def squaredNorm2_def)

lemmas smooth_defs = jerk_diff_def accel_cur_def vel_sp_xy_def vel_cur_xy_def max_jerk_def
  sub2_def sdiv2_def add2_def smul2_def squaredNorm2_def

text \<open>The scenario with the adapted goal point two units east of the previous waypoint.
  With \<open>dt = 0.004\<close> the raw jerk is \<open>2 / 0.004\<^sup>3\<close>, far above the maximum of 500: the
  setpoint carries a jerk of exactly 500. With \<open>dt = 1\<close> the raw jerk is 2 and the adapted
  goal point passes.\<close>

theorem jerk_limited_when_enabled_witness:
  "norm2 (implied_jerk (1 / 250) (s0\<lparr>output_wp := (output_wp s0)\<lparr>adapted_goto_position := Vector3f 2 0 0\<rparr>\<rparr>)
      (smoothed_goto_position (output_wp (smoothWaypoint (1 / 250)
         (s0\<lparr>output_wp := (output_wp s0)\<lparr>adapted_goto_position := Vector3f 2 0 0\<rparr>\<rparr>))))) = 500 \<and>
   vx (smoothed_goto_position (output_wp (smoothWaypoint 1
         (s0\<lparr>output_wp := (output_wp s0)\<lparr>adapted_goto_position := Vector3f 2 0 0\<rparr>\<rparr>)))) = 2 \<and>
   norm2 (implied_jerk 1 (s0\<lparr>output_wp := (output_wp s0)\<lparr>adapted_goto_position := Vector3f 2 0 0\<rparr>\<rparr>)
      (smoothed_goto_position (output_wp (smoothWaypoint 1
         (s0\<lparr>output_wp := (output_wp s0)\<lparr>adapted_goto_position := Vector3f 2 0 0\<rparr>\<rparr>))))) \<le> 500 \<and>
   max_jerk (s0\<lparr>output_wp := (output_wp s0)\<lparr>adapted_goto_position := Vector3f 2 0 0\<rparr>\<rparr>) = 500"
proof -
  let ?s = "s0\<lparr>output_wp := (output_wp s0)\<lparr>adapted_goto_position := Vector3f 2 0 0\<rparr>\<rparr>"
  have b: "max_jerk ?s = 500" by (simp add: max_jerk_def s0_def)
  have raw_fast: "jerk_diff (1 / 250) ?s = Vector2f 31250000 0"
    by (simp add: smooth_defs Let_def scenario_defs)
  have raw_slow: "jerk_diff 1 ?s = Vector2f 2 0"
    by (simp add: smooth_defs Let_def scenario_defs)
  have ad: "vx (adapted_goto_position (output_wp ?s)) = 2" by simp
  have fast: "(0::real) < 1 / 250" and slow: "(0::real) < 1" by simp_all
  have on: "max_jerk ?s > 0.001" by (simp add: b)
  have over: "max_jerk ?s > 0.001 \<and>
              squaredNorm2 (jerk_diff (1 / 250) ?s) > max_jerk ?s * max_jerk ?s"
    by (simp add: b raw_fast squaredNorm2_def)
  have under: "\<not> (max_jerk ?s > 0.001 \<and>
                  squaredNorm2 (jerk_diff 1 ?s) > max_jerk ?s * max_jerk ?s)"
    by (simp add: b raw_slow squaredNorm2_def)
  have "norm2 (implied_jerk (1 / 250) ?s
      (smoothed_goto_position (output_wp (smoothWaypoint (1 / 250) ?s)))) = max_jerk ?s"
    using jerk_limited_when_enabled [OF fast, of ?s, unfolded Let_def, THEN conjunct2,
            THEN conjunct2, THEN conjunct1, THEN mp, OF over]
    by (rule conjunct2 [THEN conjunct1])
  then have A: "norm2 (implied_jerk (1 / 250) ?s
      (smoothed_goto_position (output_wp (smoothWaypoint (1 / 250) ?s)))) = 500"
    using b by (rule trans)
  have "vx (smoothed_goto_position (output_wp (smoothWaypoint 1 ?s))) =
        vx (adapted_goto_position (output_wp ?s))"
    using jerk_limited_when_enabled [OF slow, of ?s, unfolded Let_def, THEN conjunct2,
            THEN conjunct2, THEN conjunct2, THEN conjunct1, THEN mp, OF under]
    by (rule conjunct2 [THEN conjunct1])
  then have B1: "vx (smoothed_goto_position (output_wp (smoothWaypoint 1 ?s))) = 2"
    using ad by (rule trans)
  have "norm2 (implied_jerk 1 ?s (smoothed_goto_position (output_wp (smoothWaypoint 1 ?s))))
             \<le> max_jerk ?s"
    using jerk_limited_when_enabled [OF slow, of ?s, unfolded Let_def, THEN conjunct2,
            THEN conjunct1, THEN mp, OF on] .
  then have B2: "norm2 (implied_jerk 1 ?s (smoothed_goto_position (output_wp (smoothWaypoint 1 ?s))))
             \<le> 500"
    using b by (rule ord_le_eq_trans)
  show ?thesis using A B1 B2 b by blast
qed

text \<open>The claim as stated fails where the limit is switched off: with a configured
  maximum jerk of \<open>0.0005\<close> (and no minimum) the same setpoint with \<open>dt = 1\<close> passes with
  its jerk of 2.\<close>

theorem jerk_bound_exceeded_counterexample:
  "\<not> norm2 (implied_jerk 1
        (s0\<lparr>output_wp := (output_wp s0)\<lparr>adapted_goto_position := Vector3f 2 0 0\<rparr>,
            max_jerk_limit_param := 1 / 2000\<rparr>)
        (smoothed_goto_position (output_wp (smoothWaypoint 1
          (s0\<lparr>output_wp := (output_wp s0)\<lparr>adapted_goto_position := Vector3f 2 0 0\<rparr>,
              max_jerk_limit_param := 1 / 2000\<rparr>)))))
      \<le> max_jerk (s0\<lparr>output_wp := (output_wp s0)\<lparr>adapted_goto_position := Vector3f 2 0 0\<rparr>,
                       max_jerk_limit_param := 1 / 2000\<rparr>)"
  by (simp add: smoothWaypoint_def implied_jerk_def smooth_defs Let_def scenario_defs
        norm2_east)

subsection \<open>The speed after adaptation\<close>

lemma envelope_speed:
  "speed (adaptSpeed_envelope h clk s) =
     (if \<not> obstacle_ahead (planner_info s)
      then velocityLinear h (max_speed (planner_info s)) (velocity_sigmoid_slope (planner_info s))
             (min (speed s) (max_speed (planner_info s)))
             (toSec (now_since_last_velocity clk - velocity_time s))
      else velocityLinear h (min_speed (planner_info s)) (velocity_sigmoid_slope (planner_info s))
             (min (speed s) (min_speed (planner_info s)))
             (toSec (now_since_last_velocity clk - velocity_time s)))"
  by (simp add: adaptSpeed_envelope_def Let_def)

lemma FOV_speed:
  "speed (adaptSpeed_FOV h clk s) = speed s \<or>
   speed (adaptSpeed_FOV h clk s) = speed s * (1 - angle_diff_of h s / 30)"
  by (simp add: adaptSpeed_FOV_def Let_def z_index_of_def angle_diff_of_def)

lemma scaled_le:
  fixes a b bound :: real
  assumes "b \<le> bound" "0 \<le> a" "a \<le> 30"
  shows "b * (1 - a / 30) \<le> max bound 0"
proof (cases "0 \<le> b")
  case True
  have "1 - a / 30 \<le> 1" using assms(2) by simp
  then have "b * (1 - a / 30) \<le> b * 1" using True by (rule mult_left_mono)
  then show ?thesis using assms(1) by simp
next
  case False
  have "0 \<le> 1 - a / 30" using assms(3) by simp
  then have "b * (1 - a / 30) \<le> 0" using False by (simp add: mult_le_0_iff)
  then show ?thesis by simp
qed

lemma delay_speed:
  "speed (adaptSpeed_delay clk s) =
     speed s + toSec (now_since_update clk - update_time s) * curr_vel_magnitude s"
  by (simp add: adaptSpeed_delay_def Let_def)

lemma closeToGoal_speed:
  "speed (adaptSpeed_closeToGoal s) =
     (if limit_speed_close_to_goal (adaptSpeed_closeToGoal s)
      then max (min (speed s)
                    (max_speed_close_to_goal_factor (param s) *
                     norm3 (cwiseAbs (sub3 (goal s) (pose_position s)))))
               (min_speed_close_to_goal (param s))
      else speed s)"
  by (simp add: adaptSpeed_closeToGoal_def Let_def)

text \<open>
  Claim C1, as the code has it. Let the bound be \<open>max_speed\<close> when no obstacle is ahead
  and \<open>min_speed\<close> when one is. Provided \<^verbatim>\<open>velocityLinear\<close> returns at most its limit (as
  its header documents), for any elapsed time the speed after the envelope step is at
  most the bound, and after the slowdown outside the field of view it is at most the
  bound, or at most 0 for a negative bound. The speed that scales the step is this
  speed plus the delay compensation, clamped between the close-to-goal floor and the
  close-to-goal limit when that limiting is engaged. It need not lie within
  \<open>[min_speed, max_speed]\<close>: nothing keeps it above \<open>min_speed\<close>, and the delay
  compensation or the close-to-goal floor can take it above \<open>max_speed\<close>.
\<close>

theorem adapted_speed_bounds:
  assumes ramp: "\<And>max_vel slope v_old elapsed.
                   velocityLinear h max_vel slope v_old elapsed \<le> max_vel"
  shows
   "(let bound = (if obstacle_ahead (planner_info s) then min_speed (planner_info s)
                  else max_speed (planner_info s));
         base = speed (adaptSpeed_envelope h clk s);
         scaled = speed (adaptSpeed_FOV h clk (adaptSpeed_envelope h clk s));
         delay = toSec (now_since_update clk - update_time s) * curr_vel_magnitude s;
         r = adaptSpeed h clk s
     in base \<le> bound \<and>
        scaled \<le> max bound 0 \<and>
        speed r =
          (if limit_speed_close_to_goal r
           then max (min (scaled + delay)
                         (max_speed_close_to_goal_factor (param s) *
                          norm3 (cwiseAbs (sub3 (goal s) (pose_position s)))))
                    (min_speed_close_to_goal (param s))
           else scaled + delay) \<and>
        speed r \<le> max (max bound 0 + delay) (min_speed_close_to_goal (param s)))"
proof -
  define bound where "bound = (if obstacle_ahead (planner_info s) then min_speed (planner_info s)
                  else max_speed (planner_info s))"
  define e where "e = adaptSpeed_envelope h clk s"
  define f where "f = adaptSpeed_FOV h clk e"
  define delay where "delay = toSec (now_since_update clk - update_time s) * curr_vel_magnitude s"
  define r where "r = adaptSpeed h clk s"
  have base: "speed e \<le> bound"
    using ramp by (simp add: e_def envelope_speed bound_def)
  have scaled: "speed f \<le> max bound 0"
  proof -
    have "speed f = speed e \<or> speed f = speed e * (1 - angle_diff_of h e / 30)"
      unfolding f_def by (rule FOV_speed)
    then show ?thesis
    proof
      assume "speed f = speed e"
      then show ?thesis using base by simp
    next
      assume "speed f = speed e * (1 - angle_diff_of h e / 30)"
      then show ?thesis
        using scaled_le [OF base, of "angle_diff_of h e"] angle_diff_of_bounds [of h e] by simp
    qed
  qed
  define d where "d = adaptSpeed_delay clk f"
  have dsp: "speed d = speed f + delay"
    by (simp add: d_def delay_speed delay_def f_def e_def)
  have r_eq: "r = adaptSpeed_setWaypoint (adaptSpeed_closeToGoal d)"
    by (simp add: r_def adaptSpeed_def d_def f_def e_def)
  have lim: "limit_speed_close_to_goal r = limit_speed_close_to_goal (adaptSpeed_closeToGoal d)"
    by (simp add: r_eq)
  have fr: "param d = param s" "goal d = goal s" "pose_position d = pose_position s"
    by (simp_all add: d_def f_def e_def)
  have sp: "speed r =
          (if limit_speed_close_to_goal r
           then max (min (speed f + delay)
                         (max_speed_close_to_goal_factor (param s) *
                          norm3 (cwiseAbs (sub3 (goal s) (pose_position s)))))
                    (min_speed_close_to_goal (param s))
           else speed f + delay)"
    using closeToGoal_speed [of d] by (simp add: r_eq dsp fr)
  have up: "speed r \<le> max (max bound 0 + delay) (min_speed_close_to_goal (param s))"
    using sp scaled by (auto simp add: max_def min_def)
  have "speed e \<le> bound \<and> speed f \<le> max bound 0 \<and>
        speed r =
          (if limit_speed_close_to_goal r
           then max (min (speed f + delay)
                         (max_speed_close_to_goal_factor (param s) *
                          norm3 (cwiseAbs (sub3 (goal s) (pose_position s)))))
                    (min_speed_close_to_goal (param s))
           else speed f + delay) \<and>
        speed r \<le> max (max bound 0 + delay) (min_speed_close_to_goal (param s))"
    using base scaled sp up by blast
  then show ?thesis
    unfolding Let_def bound_def [symmetric] e_def [symmetric] f_def [symmetric]
      delay_def [symmetric] r_def [symmetric] .
qed

lemma ramp_h0: "velocityLinear h0 max_vel slope v_old elapsed \<le> max_vel"
  by (simp add: h0_def velocityLinear_ramp_def)

text \<open>The scenario with the vehicle moving at speed 2 and a state update 0.1 seconds old:
  the envelope speed is 2 and the speed that scales the step is \<open>2 + 0.1 \<cdot> 2\<close>.\<close>

theorem adapted_speed_bounds_witness:
  "speed (adaptSpeed_envelope h0 clk0
     (s0\<lparr>curr_vel := \<lparr>linear = Vector3f 2 0 0, angular = origin\<rparr>, curr_vel_magnitude := 2,
         update_time := 900000000\<rparr>)) \<le> 2 \<and>
   speed (adaptSpeed h0 clk0
     (s0\<lparr>curr_vel := \<lparr>linear = Vector3f 2 0 0, angular = origin\<rparr>, curr_vel_magnitude := 2,
         update_time := 900000000\<rparr>)) \<le> 11 / 5"
proof -
  let ?s = "s0\<lparr>curr_vel := \<lparr>linear = Vector3f 2 0 0, angular = origin\<rparr>,
               curr_vel_magnitude := 2, update_time := 900000000\<rparr>"
  have f: "\<not> obstacle_ahead (planner_info s0)" "max_speed (planner_info s0) = 2"
    "toSec (now_since_update clk0 - 900000000) = 1 / 10"
    "min_speed_close_to_goal (param s0) = 1 / 2"
    by (simp_all add: s0_def info0_def clk0_def toSec_def)
  have "speed (adaptSpeed_envelope h0 clk0 ?s) \<le> 2 \<and>
        speed (adaptSpeed h0 clk0 ?s) \<le> max (max 2 0 + 1 / 10 * 2) (1 / 2)"
    using adapted_speed_bounds [of h0 ?s clk0, OF ramp_h0, unfolded Let_def]
    by (simp add: f)
  then show ?thesis by simp
qed

text \<open>The claim as stated fails in both directions. In the scenario with the visible
  indices ending five indices from the waypoint's, the speed that scales the step is 0,
  below \<open>min_speed = 0.5\<close>. With the vehicle moving at speed 2 and a state update 0.1
  seconds old it is \<open>2.2\<close>, above \<open>max_speed = 2\<close>.\<close>

theorem adapted_speed_outside_limits_counterexample:
  "\<not> (min_speed (planner_info (s0\<lparr>z_FOV_idx := [36, 37, 38, 39, 40]\<rparr>))
        \<le> speed (adaptSpeed h0 clk0 (s0\<lparr>z_FOV_idx := [36, 37, 38, 39, 40]\<rparr>)) \<and>
      speed (adaptSpeed h0 clk0 (s0\<lparr>z_FOV_idx := [36, 37, 38, 39, 40]\<rparr>))
        \<le> max_speed (planner_info (s0\<lparr>z_FOV_idx := [36, 37, 38, 39, 40]\<rparr>))) \<and>
   \<not> (min_speed (planner_info
          (s0\<lparr>curr_vel := \<lparr>linear = Vector3f 2 0 0, angular = origin\<rparr>,
              curr_vel_magnitude := 2, update_time := 900000000\<rparr>))
        \<le> speed (adaptSpeed h0 clk0
          (s0\<lparr>curr_vel := \<lparr>linear = Vector3f 2 0 0, angular = origin\<rparr>,
              curr_vel_magnitude := 2, update_time := 900000000\<rparr>)) \<and>
      speed (adaptSpeed h0 clk0
          (s0\<lparr>curr_vel := \<lparr>linear = Vector3f 2 0 0, angular = origin\<rparr>,
              curr_vel_magnitude := 2, update_time := 900000000\<rparr>))
        \<le> max_speed (planner_info
          (s0\<lparr>curr_vel := \<lparr>linear = Vector3f 2 0 0, angular = origin\<rparr>,
              curr_vel_magnitude := 2, update_time := 900000000\<rparr>)))"
proof -
  have low: "speed (adaptSpeed h0 clk0 (s0\<lparr>z_FOV_idx := [36, 37, 38, 39, 40]\<rparr>)) = 0"
    by (simp add: scenario_defs step_defs Let_def)
  have high: "speed (adaptSpeed h0 clk0
          (s0\<lparr>curr_vel := \<lparr>linear = Vector3f 2 0 0, angular = origin\<rparr>,
              curr_vel_magnitude := 2, update_time := 900000000\<rparr>)) = 11 / 5"
    by (simp add: scenario_defs step_defs Let_def)
  have lim: "min_speed (planner_info s0) = 1 / 2" "max_speed (planner_info s0) = 2"
    by (simp_all add: s0_def info0_def)
  show ?thesis by (simp add: low high lim)
qed

subsection \<open>Holding position\<close>

lemma getPathMsg_finish_command:
  "position_waypoint (output_wp (getPathMsg_finish h s)) =
     createPoseMsg h (smoothed_goto_position (output_wp (getPathMsg_finish h s)))
       (new_yaw (getPathMsg_finish h s))"
  "velocity_waypoint (output_wp (getPathMsg_finish h s)) =
     \<lparr>linear = sub3 (position (position_waypoint (output_wp (getPathMsg_finish h s))))
                     (pose_position s),
      angular = Vector3f 0 0 (getAngularVelocity h (new_yaw (getPathMsg_finish h s)) (curr_yaw s))\<rparr>"
  by (simp_all add: getPathMsg_finish_def Let_def transformPositionToVelocityWaypoint_def)

lemma getPathMsg_command:
  "position_waypoint (output_wp (getPathMsg h clk s)) =
     createPoseMsg h (smoothed_goto_position (output_wp (getPathMsg h clk s)))
       (new_yaw (getPathMsg h clk s))"
  "velocity_waypoint (output_wp (getPathMsg h clk s)) =
     \<lparr>linear = sub3 (position (position_waypoint (output_wp (getPathMsg h clk s))))
                     (pose_position s),
      angular = Vector3f 0 0 (getAngularVelocity h (new_yaw (getPathMsg h clk s)) (curr_yaw s))\<rparr>"
  using getPathMsg_finish_command [of h "withinGoalRadius h (getPathMsg_smoothed h clk s)"]
  by (simp_all add: getPathMsg_def)

text \<open>The tick of \<open>hover\<close> mode, written out: the position is frozen when the last mode
  was another one, the frozen position is the raw goal point, \<^verbatim>\<open>getPathMsg\<close> assembles the
  command from it, and the members kept for the next tick are stored.\<close>

lemma calculateWaypoint_hover_tick:
  assumes "avoidanceOutput.waypoint_type (planner_info s) = hover"
  shows "calculateWaypoint h clk s =
    (let target = (if last_wp_type s \<noteq> hover then pose_position s else hover_position s);
         g = getPathMsg h clk
               (s\<lparr>output_wp := (output_wp s)\<lparr>waypointResult.waypoint_type := hover,
                                              goto_position := target\<rparr>,
                  last_time := current_time s,
                  current_time := now_calculateWaypoint clk,
                  hover_position := target\<rparr>)
     in g\<lparr>last_wp_type := hover,
          last_position_waypoint := position_waypoint (output_wp g),
          last_yaw := curr_yaw s,
          last_velocity := Vector2f (vx (linear (curr_vel s))) (vy (linear (curr_vel s)))\<rparr>)"
proof -
  define s1 where "s1 = s\<lparr>output_wp := (output_wp s)\<lparr>waypointResult.waypoint_type := hover\<rparr>,
                last_time := current_time s,
                current_time := now_calculateWaypoint clk\<rparr>"
  define a where "a = (if last_wp_type s1 \<noteq> hover
                       then s1\<lparr>hover_position := pose_position s1\<rparr> else s1)"
  define x where "x = a\<lparr>output_wp := (output_wp a)\<lparr>goto_position := hover_position a\<rparr>\<rparr>"
  define target where
    "target = (if last_wp_type s \<noteq> hover then pose_position s else hover_position s)"
  have src: "calculateWaypoint h clk s =
      (getPathMsg h clk x)\<lparr>last_wp_type := hover,
          last_position_waypoint := position_waypoint (output_wp (getPathMsg h clk x)),
          last_yaw := curr_yaw s,
          last_velocity := Vector2f (vx (linear (curr_vel s))) (vy (linear (curr_vel s)))\<rparr>"
    using assms
    by (simp add: calculateWaypoint_def Let_def x_def a_def s1_def)
  have arg: "x = s\<lparr>output_wp := (output_wp s)\<lparr>waypointResult.waypoint_type := hover,
                                              goto_position := target\<rparr>,
                  last_time := current_time s,
                  current_time := now_calculateWaypoint clk,
                  hover_position := target\<rparr>"
    by (cases "last_wp_type s = hover") (simp_all add: x_def a_def s1_def target_def)
  show ?thesis
    unfolding Let_def target_def [symmetric] arg [symmetric] by (rule src)
qed

lemma updateState_reads:
  "curr_vel (updateState h act_pose goal_msg vel stay t s) = vel"
  "curr_yaw (updateState h act_pose goal_msg vel stay t s) = getYaw h (orientation act_pose)"
  "current_time (updateState h act_pose goal_msg vel stay t s) = current_time s"
  "reach_altitude (planner_info (updateState h act_pose goal_msg vel stay t s)) =
     reach_altitude (planner_info s)"
  by (simp_all add: updateState_def Let_def split: prod.splits)

text \<open>
  Claim C10. A call of \<^verbatim>\<open>updateState\<close> with the hold-in-place boolean set overwrites the
  waypoint mode of the stored directive with \<open>hover\<close>, so the call of \<^verbatim>\<open>getWaypoints\<close>
  that follows runs the hover strategy whatever mode the directive carried. The tick is
  the hover tick: the hover target (the current position when the last mode was not
  \<open>hover\<close>, the position frozen earlier otherwise) becomes the raw goal point,
  \<^verbatim>\<open>getPathMsg\<close> assembles the position and velocity command from it, and the result is
  the result for a directive that asked for \<open>hover\<close>. The mode in the output is \<open>hover\<close>.
  (The raw goal point is read from the output for a directive whose altitude flag is
  set; the altitude climb overwrites it otherwise.)
\<close>

theorem updateState_stay_dispatches_hover:
  "(let u = updateState h act_pose goal_msg vel True t (setPlannerInfo input s);
        target = (if last_wp_type s \<noteq> hover then position act_pose else hover_position s);
        g = getPathMsg h clk
              (u\<lparr>output_wp := (output_wp u)\<lparr>waypointResult.waypoint_type := hover,
                                             goto_position := target\<rparr>,
                 last_time := current_time s,
                 current_time := now_calculateWaypoint clk,
                 hover_position := target\<rparr>);
        r = getWaypoints h clk u
    in avoidanceOutput.waypoint_type (planner_info u) = hover \<and>
       r = g\<lparr>last_wp_type := hover,
              last_position_waypoint := position_waypoint (output_wp g),
              last_yaw := getYaw h (orientation act_pose),
              last_velocity := Vector2f (vx (linear vel)) (vy (linear vel))\<rparr> \<and>
       r = getWaypoints h clk (updateState h act_pose goal_msg vel True t
             (setPlannerInfo (input\<lparr>avoidanceOutput.waypoint_type := hover\<rparr>) s)) \<and>
       waypointResult.waypoint_type (output_wp r) = hover \<and>
       last_wp_type r = hover \<and>
       hover_position r = target \<and>
       (reach_altitude input \<longrightarrow> goto_position (output_wp r) = target) \<and>
       position_waypoint (output_wp r) =
         createPoseMsg h (smoothed_goto_position (output_wp r)) (new_yaw r) \<and>
       velocity_waypoint (output_wp r) =
         \<lparr>linear = sub3 (position (position_waypoint (output_wp r))) (position act_pose),
          angular = Vector3f 0 0
            (getAngularVelocity h (new_yaw r) (getYaw h (orientation act_pose)))\<rparr>)"
proof -
  define u where "u = updateState h act_pose goal_msg vel True t (setPlannerInfo input s)"
  define target where
    "target = (if last_wp_type s \<noteq> hover then position act_pose else hover_position s)"
  define s1 where "s1 = u\<lparr>output_wp := (output_wp u)\<lparr>waypointResult.waypoint_type := hover,
                                             goto_position := target\<rparr>,
                 last_time := current_time s,
                 current_time := now_calculateWaypoint clk,
                 hover_position := target\<rparr>"
  define g where "g = getPathMsg h clk s1"
  define r where "r = getWaypoints h clk u"
  have mode: "avoidanceOutput.waypoint_type (planner_info u) = hover"
    by (simp add: u_def updateState_stay)
  have same: "u = updateState h act_pose goal_msg vel True t
                     (setPlannerInfo (input\<lparr>avoidanceOutput.waypoint_type := hover\<rparr>) s)"
    unfolding u_def
    using updateState_mode_irrelevant
            [where input = input and m = "avoidanceOutput.waypoint_type input"]
    by simp
  have reads: "last_wp_type u = last_wp_type s" "hover_position u = hover_position s"
    "pose_position u = position act_pose" "curr_vel u = vel"
    "curr_yaw u = getYaw h (orientation act_pose)" "current_time u = current_time s"
    "reach_altitude (planner_info u) = reach_altitude input"
    by (simp_all add: u_def updateState_reads setPlannerInfo_def)
  have tick: "r = g\<lparr>last_wp_type := hover,
              last_position_waypoint := position_waypoint (output_wp g),
              last_yaw := getYaw h (orientation act_pose),
              last_velocity := Vector2f (vx (linear vel)) (vy (linear vel))\<rparr>"
    using calculateWaypoint_hover_tick [OF mode, of h clk]
    by (simp add: r_def getWaypoints_def Let_def reads g_def s1_def target_def)
  have s1_reads: "reach_altitude (planner_info s1) = reach_altitude input"
    "goto_position (output_wp s1) = target" "hover_position s1 = target"
    "pose_position s1 = position act_pose" "curr_yaw s1 = getYaw h (orientation act_pose)"
    "waypointResult.waypoint_type (output_wp s1) = hover"
    by (simp_all add: s1_def reads)
  have label: "waypointResult.waypoint_type (output_wp r) = hover"
    by (simp add: tick g_def s1_reads)
  have lw: "last_wp_type r = hover" by (simp add: tick)
  have hp: "hover_position r = target" by (simp add: tick g_def s1_reads)
  have goto: "reach_altitude input \<longrightarrow> goto_position (output_wp r) = target"
    using getPathMsg_goto [of s1 h clk] by (simp add: tick g_def s1_reads)
  have pw: "position_waypoint (output_wp r) =
         createPoseMsg h (smoothed_goto_position (output_wp r)) (new_yaw r)"
    using getPathMsg_command(1) [of h clk s1] by (simp add: tick g_def)
  have vw: "velocity_waypoint (output_wp r) =
         \<lparr>linear = sub3 (position (position_waypoint (output_wp r))) (position act_pose),
          angular = Vector3f 0 0
            (getAngularVelocity h (new_yaw r) (getYaw h (orientation act_pose)))\<rparr>"
    using getPathMsg_command(2) [of h clk s1] by (simp add: tick g_def s1_reads)
  have other: "r = getWaypoints h clk (updateState h act_pose goal_msg vel True t
             (setPlannerInfo (input\<lparr>avoidanceOutput.waypoint_type := hover\<rparr>) s))"
    unfolding r_def using same by simp
  have "avoidanceOutput.waypoint_type (planner_info u) = hover \<and>
       r = g\<lparr>last_wp_type := hover,
              last_position_waypoint := position_waypoint (output_wp g),
              last_yaw := getYaw h (orientation act_pose),
              last_velocity := Vector2f (vx (linear vel)) (vy (linear vel))\<rparr> \<and>
       r = getWaypoints h clk (updateState h act_pose goal_msg vel True t
             (setPlannerInfo (input\<lparr>avoidanceOutput.waypoint_type := hover\<rparr>) s)) \<and>
       waypointResult.waypoint_type (output_wp r) = hover \<and>
       last_wp_type r = hover \<and>
       hover_position r = target \<and>
       (reach_altitude input \<longrightarrow> goto_position (output_wp r) = target) \<and>
       position_waypoint (output_wp r) =
         createPoseMsg h (smoothed_goto_position (output_wp r)) (new_yaw r) \<and>
       velocity_waypoint (output_wp r) =
         \<lparr>linear = sub3 (position (position_waypoint (output_wp r))) (position act_pose),
          angular = Vector3f 0 0
            (getAngularVelocity h (new_yaw r) (getYaw h (orientation act_pose)))\<rparr>"
    using mode tick other label lw hp goto pw vw by blast
  then show ?thesis
    unfolding Let_def u_def [symmetric] target_def [symmetric] s1_def [symmetric]
      g_def [symmetric] r_def [symmetric] .
qed

text \<open>The scenario with a directive that asks for \<open>direct\<close> mode and the hold-in-place
  boolean set: the tick is a hover tick at the current position, the origin, and not at
  the position \<open>(7, 7, 7)\<close> frozen earlier.\<close>

theorem updateState_stay_dispatches_hover_witness:
  "waypointResult.waypoint_type (output_wp (getWaypoints h0 clk0
     (updateState h0 pose0 \<lparr>position = Vector3f 10 0 0, orientation = Quaternion 0 0 0 1\<rparr>
        \<lparr>linear = origin, angular = origin\<rparr> True 5 (setPlannerInfo info0 s0)))) = hover \<and>
   hover_position (getWaypoints h0 clk0
     (updateState h0 pose0 \<lparr>position = Vector3f 10 0 0, orientation = Quaternion 0 0 0 1\<rparr>
        \<lparr>linear = origin, angular = origin\<rparr> True 5 (setPlannerInfo info0 s0))) = origin \<and>
   goto_position (output_wp (getWaypoints h0 clk0
     (updateState h0 pose0 \<lparr>position = Vector3f 10 0 0, orientation = Quaternion 0 0 0 1\<rparr>
        \<lparr>linear = origin, angular = origin\<rparr> True 5 (setPlannerInfo info0 s0)))) = origin \<and>
   avoidanceOutput.waypoint_type info0 = direct \<and> hover_position s0 = Vector3f 7 7 7"
proof -
  let ?r = "getWaypoints h0 clk0
     (updateState h0 pose0 \<lparr>position = Vector3f 10 0 0, orientation = Quaternion 0 0 0 1\<rparr>
        \<lparr>linear = origin, angular = origin\<rparr> True 5 (setPlannerInfo info0 s0))"
  have target: "(if last_wp_type s0 \<noteq> hover then position pose0 else hover_position s0) = origin"
    by (simp add: s0_def pose0_def)
  have alt: "reach_altitude info0" by (simp add: info0_def)
  have c: "avoidanceOutput.waypoint_type info0 = direct" by (simp add: info0_def)
  have d: "hover_position s0 = Vector3f 7 7 7" by (simp add: s0_def)
  note T = updateState_stay_dispatches_hover
            [of h0 pose0 "\<lparr>position = Vector3f 10 0 0, orientation = Quaternion 0 0 0 1\<rparr>"
                "\<lparr>linear = origin, angular = origin\<rparr>" 5 info0 s0 clk0, unfolded Let_def,
             THEN conjunct2, THEN conjunct2, THEN conjunct2]
  have label: "waypointResult.waypoint_type (output_wp ?r) = hover"
    by (rule T [THEN conjunct1])
  have "hover_position ?r =
        (if last_wp_type s0 \<noteq> hover then position pose0 else hover_position s0)"
    by (rule T [THEN conjunct2, THEN conjunct2, THEN conjunct1])
  then have hp: "hover_position ?r = origin" using target by (rule trans)
  have "goto_position (output_wp ?r) =
        (if last_wp_type s0 \<noteq> hover then position pose0 else hover_position s0)"
    by (rule T [THEN conjunct2, THEN conjunct2, THEN conjunct2, THEN conjunct1, THEN mp, OF alt])
  then have gp: "goto_position (output_wp ?r) = origin" using target by (rule trans)
  show ?thesis using label hp gp c d by blast
qed

subsection \<open>The slowdown at the seam of the azimuth grid\<close>

lemma seam_reads:
  "z_index_of h_seam s_seam = 59" "ALPHA_RES h_seam = 6"
  "z_FOV_idx s_seam = [0, 1, 2, 3, 4, 5, 6, 7, 8, 9]"
  "reach_altitude (planner_info s_seam)" "\<not> reached_goal s_seam"
  by (simp_all add: z_index_of_def h_seam_def s_seam_def h0_def s0_def info0_def)

lemma seam_envelope: "speed (adaptSpeed_envelope h_seam clk0 s_seam) = 2"
  by (simp add: adaptSpeed_envelope_def Let_def h_seam_def s_seam_def scenario_defs toSec_def)

text \<open>
  Claim C6. Outside the visible indices, with the altitude reached and the goal not
  reached, the speed is to be scaled by \<open>1 - angle_diff / 30\<close> with \<open>angle_diff\<close> the angular
  distance in degrees to the nearest visible index, capped at 30, and the yaw-only flag
  set when the result is below \<open>0.01\<close>. The code takes the plain difference of the indices
  and so misses the way round the seam. At the seam tick the waypoint's cell 59 is one
  cell, 6 degrees, from the visible cell 0: the claim gives the speed
  \<open>2 \<cdot> (1 - 6/30) = 1.6\<close> and a clear yaw-only flag. The code finds cell 9 nearest, 50
  cells and 300 degrees away, caps that at 30, scales the speed to 0 and sets the
  yaw-only flag.
\<close>

theorem seam_slowdown_not_angular_distance:
  "z_index_of h_seam s_seam = 59 \<and>
   z_index_of h_seam s_seam \<notin> set (z_FOV_idx s_seam) \<and>
   reach_altitude (planner_info s_seam) \<and> \<not> reached_goal s_seam \<and>
   angular_distance_to_nearest_visible (ALPHA_RES h_seam) (z_FOV_idx s_seam)
     (z_index_of h_seam s_seam) = 6 \<and>
   speed (adaptSpeed_envelope h_seam clk0 s_seam) *
     (1 - min (angular_distance_to_nearest_visible (ALPHA_RES h_seam) (z_FOV_idx s_seam)
                (z_index_of h_seam s_seam)) 30 / 30) = 8 / 5 \<and>
   ind_dist_loop (z_FOV_idx s_seam) (z_index_of h_seam s_seam) 100 = 50 \<and>
   angle_diff_of h_seam s_seam = 30 \<and>
   speed (adaptSpeed_FOV h_seam clk0 (adaptSpeed_envelope h_seam clk0 s_seam)) = 0 \<and>
   only_yawed (adaptSpeed h_seam clk0 s_seam)"
proof -
  have pre: "z_index_of h_seam s_seam \<notin> set (z_FOV_idx s_seam)"
    by (simp add: seam_reads)
  have claimed: "angular_distance_to_nearest_visible (ALPHA_RES h_seam) (z_FOV_idx s_seam)
     (z_index_of h_seam s_seam) = 6"
    by (simp add: seam_reads angular_distance_to_nearest_visible_def cell_distance_def)
  have loop: "ind_dist_loop (z_FOV_idx s_seam) (z_index_of h_seam s_seam) 100 = 50"
    by (simp add: seam_reads)
  have ad: "angle_diff_of h_seam s_seam = 30"
    by (simp add: angle_diff_of_def Let_def loop seam_reads)
  have code: "speed (adaptSpeed_FOV h_seam clk0 (adaptSpeed_envelope h_seam clk0 s_seam)) = 0 \<and>
              only_yawed (adaptSpeed h_seam clk0 s_seam)"
    using outside_FOV_scales_speed [OF pre seam_reads(4) seam_reads(5), of clk0,
            unfolded Let_def]
    by (simp add: seam_reads seam_envelope)
  show ?thesis
    using pre claimed loop ad code by (simp add: seam_reads seam_envelope)
qed

subsection \<open>Directions of length zero\<close>

lemma fin3_no_NaN: "\<not> has_NaN (fin3 a)"
  by (simp add: has_NaN_def fin3_def)

lemma xsub3_fin3: "xsub3 (fin3 a) (fin3 b) = fin3 (sub3 a b)"
  by (simp add: xsub3_def fin3_def sub3_def xsub_def)

lemma xadd3_fin3: "xadd3 (fin3 a) (fin3 b) = fin3 (add3 a b)"
  by (simp add: xadd3_def fin3_def add3_def)

lemma xsmul3_fin3: "xsmul3 (Fin c) (fin3 a) = fin3 (smul3 c a)"
  by (simp add: xsmul3_def fin3_def smul3_def)

lemma xsdiv3_fin3: "c \<noteq> 0 \<Longrightarrow> xsdiv3 (fin3 a) (Fin c) = fin3 (sdiv3 a c)"
  by (simp add: xsdiv3_def fin3_def sdiv3_def)

lemma xsquaredNorm3_fin3: "xsquaredNorm3 (fin3 a) = Fin (squaredNorm3 a)"
  by (simp add: xsquaredNorm3_def fin3_def squaredNorm3_def)

text \<open>On finite vectors the normalisation over the extended values is the one over the
  reals: it never divides by zero, so it never leaves the finite values.\<close>

lemma xnormalized3_fin3: "xnormalized3 (fin3 a) = fin3 (normalized3 a)"
proof (cases "0 < squaredNorm3 a")
  case True
  then have "sqrt (squaredNorm3 a) \<noteq> 0" by simp
  then show ?thesis
    using True
    by (simp add: xnormalized3_def normalized3_def Let_def xsquaredNorm3_fin3 xsdiv3_fin3)
next
  case False
  then show ?thesis
    by (simp add: xnormalized3_def normalized3_def Let_def xsquaredNorm3_fin3)
qed

text \<open>The bare quotient of the zero vector by its norm is NaN in every component: the
  test of the squared norm is what keeps NaN out.\<close>

lemma xquotient_by_norm_zero:
  "xquotient_by_norm (fin3 (Vector3f 0 0 0)) = xVector3f NaN NaN NaN"
  by (simp add: xquotient_by_norm_def xsquaredNorm3_def xsdiv3_def fin3_def)

lemma goFast_goto_x_fin3:
  "goFast_goto_x (fin3 p) (fin3 g) = fin3 (add3 p (normalized3 (sub3 g p)))"
  by (simp add: goFast_goto_x_def xsub3_fin3 xnormalized3_fin3 xadd3_fin3)

lemma backOff_goto_x_fin3:
  "backOff_goto_x (fin3 p) (fin3 b) (Fin z) =
     fin3 (Vector3f (vx p + 0.5 * vx (normalized3 (Vector3f (vx p - vx b) (vy p - vy b) 0)))
                    (vy p + 0.5 * vy (normalized3 (Vector3f (vx p - vx b) (vy p - vy b) 0)))
                    z)"
proof -
  have d1: "xVector3f (xx (xsub3 (fin3 p) (fin3 b))) (xy (xsub3 (fin3 p) (fin3 b))) (Fin 0) =
            fin3 (Vector3f (vx p - vx b) (vy p - vy b) 0)"
    by (simp add: xsub3_def xsub_def fin3_def)
  show ?thesis
    unfolding backOff_goto_x_def Let_def d1 xnormalized3_fin3
    by (simp add: xsmul3_fin3 xadd3_fin3) (simp add: fin3_def add3_def smul3_def)
qed

lemma normalized3_zero: "normalized3 (Vector3f 0 0 0) = Vector3f 0 0 0"
  by (simp add: normalized3_def Let_def squaredNorm3_def)

lemma sub3_self: "sub3 a a = Vector3f 0 0 0"
  by (simp add: sub3_def)

lemma add3_zero: "add3 a (Vector3f 0 0 0) = a"
  by (cases a) (simp add: add3_def)

lemma goFast_zero_step:
  assumes "goal s = pose_position s"
  shows "goFast h clk s =
         getPathMsg h clk (s\<lparr>output_wp := (output_wp s)\<lparr>goto_position := pose_position s\<rparr>\<rparr>)"
  using assms by (simp add: goFast_def Let_def sub3_self normalized3_zero add3_zero)

lemma calculateWaypoint_reachHeight:
  assumes mode: "avoidanceOutput.waypoint_type (planner_info s) = reachHeight"
  shows "output_wp (calculateWaypoint h clk s) =
         output_wp (goFast h clk
            (s\<lparr>output_wp := (output_wp s)\<lparr>waypointResult.waypoint_type := reachHeight\<rparr>,
               last_time := current_time s,
               current_time := now_calculateWaypoint clk\<rparr>))"
  using mode by (simp add: calculateWaypoint_def Let_def goFast_result)

lemma calculateWaypoint_goFast_goto:
  assumes mode: "avoidanceOutput.waypoint_type (planner_info s) = direct \<or>
                 avoidanceOutput.waypoint_type (planner_info s) = reachHeight"
    and alt: "reach_altitude (planner_info s)"
  shows "goto_position (output_wp (calculateWaypoint h clk s)) =
         add3 (pose_position s) (normalized3 (sub3 (goal s) (pose_position s)))"
proof -
  let ?s1 = "\<lambda>m. s\<lparr>output_wp := (output_wp s)\<lparr>waypointResult.waypoint_type := m\<rparr>,
               last_time := current_time s,
               current_time := now_calculateWaypoint clk\<rparr>"
  have g: "goto_position (output_wp (goFast h clk (?s1 m))) =
           add3 (pose_position s) (normalized3 (sub3 (goal s) (pose_position s)))" for m
    using goFast_result(5) [of "?s1 m" h clk] alt by simp
  from mode show ?thesis
  proof
    assume "avoidanceOutput.waypoint_type (planner_info s) = direct"
    then show ?thesis using calculateWaypoint_direct [of s h clk] g [of direct] by simp
  next
    assume "avoidanceOutput.waypoint_type (planner_info s) = reachHeight"
    then show ?thesis using calculateWaypoint_reachHeight [of s h clk] g [of reachHeight] by simp
  qed
qed

lemma backOff_zero_offset:
  assumes "vx (pose_position s) = vx (back_off_point (planner_info s))"
    and "vy (pose_position s) = vy (back_off_point (planner_info s))"
  shows "goto_position (output_wp (backOff h s)) =
         Vector3f (vx (pose_position s)) (vy (pose_position s))
                  (vz (back_off_start_point (planner_info s)))"
  using assms by (simp add: backOff_goto normalized3_zero)

text \<open>
  Claim C4. Where the direction to be normalised has length zero, the step is zero and
  no component of the raw goal point is NaN. In \<open>direct\<close> and \<open>reachHeight\<close> mode with the
  current position equal to the goal, \<^verbatim>\<open>goFast\<close> hands the current position itself to
  \<^verbatim>\<open>getPathMsg\<close> as the raw goal point. In \<open>goBack\<close> mode with no horizontal offset from
  the back-off point, the raw goal point is the current position in x and y, at the
  altitude of the back-off start point. With the special values of floating-point
  arithmetic written out, both raw goal points are, for every finite position, goal and
  back-off point, the finite values of the real-number reading, so neither has a NaN
  component. This rests on the test of the squared norm inside Eigen's \<^verbatim>\<open>normalized()\<close>
  and \<^verbatim>\<open>normalize()\<close>, which the generator calls without a test of its own. (In the
  output the raw goal point of \<^verbatim>\<open>goFast\<close> is read for a directive whose altitude flag is
  set; the altitude climb overwrites it otherwise.)
\<close>

theorem zero_direction_zero_step:
  "(goal s = pose_position s \<longrightarrow>
      goFast h clk s =
        getPathMsg h clk (s\<lparr>output_wp := (output_wp s)\<lparr>goto_position := pose_position s\<rparr>\<rparr>) \<and>
      goFast_goto_x (fin3 (pose_position s)) (fin3 (goal s)) = fin3 (pose_position s) \<and>
      ((avoidanceOutput.waypoint_type (planner_info s) = direct \<or>
        avoidanceOutput.waypoint_type (planner_info s) = reachHeight) \<and>
       reach_altitude (planner_info s) \<longrightarrow>
         goto_position (output_wp (calculateWaypoint h clk s)) = pose_position s)) \<and>
   (vx (pose_position s) = vx (back_off_point (planner_info s)) \<and>
    vy (pose_position s) = vy (back_off_point (planner_info s)) \<longrightarrow>
      goto_position (output_wp (backOff h s)) =
        Vector3f (vx (pose_position s)) (vy (pose_position s))
                 (vz (back_off_start_point (planner_info s))) \<and>
      backOff_goto_x (fin3 (pose_position s)) (fin3 (back_off_point (planner_info s)))
          (Fin (vz (back_off_start_point (planner_info s)))) =
        fin3 (Vector3f (vx (pose_position s)) (vy (pose_position s))
                       (vz (back_off_start_point (planner_info s)))) \<and>
      (avoidanceOutput.waypoint_type (planner_info s) = goBack \<longrightarrow>
         goto_position (output_wp (calculateWaypoint h clk s)) =
           Vector3f (vx (pose_position s)) (vy (pose_position s))
                    (vz (back_off_start_point (planner_info s))))) \<and>
   goFast_goto_x (fin3 (pose_position s)) (fin3 (goal s)) =
     fin3 (add3 (pose_position s) (normalized3 (sub3 (goal s) (pose_position s)))) \<and>
   \<not> has_NaN (goFast_goto_x (fin3 (pose_position s)) (fin3 (goal s))) \<and>
   backOff_goto_x (fin3 (pose_position s)) (fin3 (back_off_point (planner_info s)))
       (Fin (vz (back_off_start_point (planner_info s)))) =
     fin3 (goto_position (output_wp (backOff h s))) \<and>
   \<not> has_NaN (backOff_goto_x (fin3 (pose_position s)) (fin3 (back_off_point (planner_info s)))
       (Fin (vz (back_off_start_point (planner_info s)))))"
proof -
  let ?pos = "pose_position s"
  let ?bo = "back_off_point (planner_info s)"
  let ?z = "vz (back_off_start_point (planner_info s))"
  have gx: "goFast_goto_x (fin3 ?pos) (fin3 (goal s)) =
            fin3 (add3 ?pos (normalized3 (sub3 (goal s) ?pos)))"
    by (rule goFast_goto_x_fin3)
  have bx: "backOff_goto_x (fin3 ?pos) (fin3 ?bo) (Fin ?z) =
            fin3 (goto_position (output_wp (backOff h s)))"
    by (simp add: backOff_goto_x_fin3 backOff_goto)
  have gn: "\<not> has_NaN (goFast_goto_x (fin3 ?pos) (fin3 (goal s)))"
    unfolding gx by (rule fin3_no_NaN)
  have bn: "\<not> has_NaN (backOff_goto_x (fin3 ?pos) (fin3 ?bo) (Fin ?z))"
    unfolding bx by (rule fin3_no_NaN)
  have fast: "goal s = ?pos \<longrightarrow>
      goFast h clk s =
        getPathMsg h clk (s\<lparr>output_wp := (output_wp s)\<lparr>goto_position := ?pos\<rparr>\<rparr>) \<and>
      goFast_goto_x (fin3 ?pos) (fin3 (goal s)) = fin3 ?pos \<and>
      ((avoidanceOutput.waypoint_type (planner_info s) = direct \<or>
        avoidanceOutput.waypoint_type (planner_info s) = reachHeight) \<and>
       reach_altitude (planner_info s) \<longrightarrow>
         goto_position (output_wp (calculateWaypoint h clk s)) = ?pos)"
  proof
    assume eq: "goal s = ?pos"
    have zero: "add3 ?pos (normalized3 (sub3 (goal s) ?pos)) = ?pos"
      by (simp add: eq sub3_self normalized3_zero add3_zero)
    have 1: "goFast h clk s =
        getPathMsg h clk (s\<lparr>output_wp := (output_wp s)\<lparr>goto_position := ?pos\<rparr>\<rparr>)"
      by (rule goFast_zero_step [OF eq])
    have 2: "goFast_goto_x (fin3 ?pos) (fin3 (goal s)) = fin3 ?pos"
      using gx zero by simp
    have 3: "(avoidanceOutput.waypoint_type (planner_info s) = direct \<or>
        avoidanceOutput.waypoint_type (planner_info s) = reachHeight) \<and>
       reach_altitude (planner_info s) \<longrightarrow>
         goto_position (output_wp (calculateWaypoint h clk s)) = ?pos"
      using calculateWaypoint_goFast_goto [of s h clk] zero by auto
    show "goFast h clk s =
        getPathMsg h clk (s\<lparr>output_wp := (output_wp s)\<lparr>goto_position := ?pos\<rparr>\<rparr>) \<and>
      goFast_goto_x (fin3 ?pos) (fin3 (goal s)) = fin3 ?pos \<and>
      ((avoidanceOutput.waypoint_type (planner_info s) = direct \<or>
        avoidanceOutput.waypoint_type (planner_info s) = reachHeight) \<and>
       reach_altitude (planner_info s) \<longrightarrow>
         goto_position (output_wp (calculateWaypoint h clk s)) = ?pos)"
      using 1 2 3 by blast
  qed
  have retreat: "vx ?pos = vx ?bo \<and> vy ?pos = vy ?bo \<longrightarrow>
      goto_position (output_wp (backOff h s)) = Vector3f (vx ?pos) (vy ?pos) ?z \<and>
      backOff_goto_x (fin3 ?pos) (fin3 ?bo) (Fin ?z) = fin3 (Vector3f (vx ?pos) (vy ?pos) ?z) \<and>
      (avoidanceOutput.waypoint_type (planner_info s) = goBack \<longrightarrow>
         goto_position (output_wp (calculateWaypoint h clk s)) = Vector3f (vx ?pos) (vy ?pos) ?z)"
  proof
    assume off: "vx ?pos = vx ?bo \<and> vy ?pos = vy ?bo"
    have 1: "goto_position (output_wp (backOff h s)) = Vector3f (vx ?pos) (vy ?pos) ?z"
      using off backOff_zero_offset [of s h] by blast
    have 2: "backOff_goto_x (fin3 ?pos) (fin3 ?bo) (Fin ?z) = fin3 (Vector3f (vx ?pos) (vy ?pos) ?z)"
      using bx 1 by simp
    have 3: "avoidanceOutput.waypoint_type (planner_info s) = goBack \<longrightarrow>
         goto_position (output_wp (calculateWaypoint h clk s)) = Vector3f (vx ?pos) (vy ?pos) ?z"
    proof
      assume m: "avoidanceOutput.waypoint_type (planner_info s) = goBack"
      let ?s1 = "s\<lparr>output_wp := (output_wp s)\<lparr>waypointResult.waypoint_type := goBack\<rparr>,
               last_time := current_time s,
               current_time := now_calculateWaypoint clk\<rparr>"
      have "goto_position (output_wp (backOff h ?s1)) = Vector3f (vx ?pos) (vy ?pos) ?z"
        using off backOff_zero_offset [of ?s1 h] by simp
      then show "goto_position (output_wp (calculateWaypoint h clk s)) =
                 Vector3f (vx ?pos) (vy ?pos) ?z"
        using calculateWaypoint_goBack [OF m, of h clk] by simp
    qed
    show "goto_position (output_wp (backOff h s)) = Vector3f (vx ?pos) (vy ?pos) ?z \<and>
      backOff_goto_x (fin3 ?pos) (fin3 ?bo) (Fin ?z) = fin3 (Vector3f (vx ?pos) (vy ?pos) ?z) \<and>
      (avoidanceOutput.waypoint_type (planner_info s) = goBack \<longrightarrow>
         goto_position (output_wp (calculateWaypoint h clk s)) = Vector3f (vx ?pos) (vy ?pos) ?z)"
      using 1 2 3 by blast
  qed
  show ?thesis using fast retreat gx gn bx bn by blast
qed

text \<open>The scenario with the goal at the current position, the origin, in \<open>direct\<close> mode,
  and in \<open>goBack\<close> mode with the back-off point two units above the current position.\<close>

theorem zero_direction_zero_step_witness:
  "goto_position (output_wp (calculateWaypoint h0 clk0 (s0\<lparr>goal := origin\<rparr>))) = origin \<and>
   goFast_goto_x (fin3 origin) (fin3 origin) = xVector3f (Fin 0) (Fin 0) (Fin 0) \<and>
   \<not> has_NaN (goFast_goto_x (fin3 origin) (fin3 origin)) \<and>
   goto_position (output_wp (calculateWaypoint h0 clk0
     (s0\<lparr>planner_info := info0\<lparr>avoidanceOutput.waypoint_type := goBack,
                                  back_off_point := Vector3f 0 0 2\<rparr>\<rparr>))) = Vector3f 0 0 5 \<and>
   backOff_goto_x (fin3 origin) (fin3 (Vector3f 0 0 2)) (Fin 5) =
     xVector3f (Fin 0) (Fin 0) (Fin 5) \<and>
   \<not> has_NaN (backOff_goto_x (fin3 origin) (fin3 (Vector3f 0 0 2)) (Fin 5))"
proof -
  let ?a = "s0\<lparr>goal := origin\<rparr>"
  let ?b = "s0\<lparr>planner_info := info0\<lparr>avoidanceOutput.waypoint_type := goBack,
                                  back_off_point := Vector3f 0 0 2\<rparr>\<rparr>"
  have a: "goal ?a = pose_position ?a" "pose_position ?a = origin" "goal ?a = origin"
    "avoidanceOutput.waypoint_type (planner_info ?a) = direct"
    "reach_altitude (planner_info ?a)"
    by (simp_all add: s0_def pose0_def info0_def)
  have b: "pose_position ?b = origin" "back_off_point (planner_info ?b) = Vector3f 0 0 2"
    "vz (back_off_start_point (planner_info ?b)) = 5"
    "avoidanceOutput.waypoint_type (planner_info ?b) = goBack"
    "vx (pose_position ?b) = vx (back_off_point (planner_info ?b)) \<and>
     vy (pose_position ?b) = vy (back_off_point (planner_info ?b))"
    by (simp_all add: s0_def pose0_def info0_def origin_def)
  have p0: "pose_position s0 = origin" and st: "back_off_start_point info0 = Vector3f 0 0 5"
    by (simp_all add: s0_def pose0_def info0_def)
  note A = zero_direction_zero_step [of ?a h0 clk0, THEN conjunct1, THEN mp, OF a(1)]
  note B = zero_direction_zero_step [of ?b h0 clk0, THEN conjunct2, THEN conjunct1, THEN mp,
             OF b(5)]
  note N = zero_direction_zero_step [of ?a h0 clk0, THEN conjunct2, THEN conjunct2,
             THEN conjunct2, THEN conjunct1]
  note M = zero_direction_zero_step [of ?b h0 clk0, THEN conjunct2, THEN conjunct2,
             THEN conjunct2, THEN conjunct2, THEN conjunct2]
  have A1: "goto_position (output_wp (calculateWaypoint h0 clk0 ?a)) = origin"
    using A [THEN conjunct2, THEN conjunct2] a(4) a(5) by (simp add: p0)
  have A2: "goFast_goto_x (fin3 origin) (fin3 origin) = xVector3f (Fin 0) (Fin 0) (Fin 0)"
    using A [THEN conjunct2, THEN conjunct1] by (simp add: p0) (simp add: fin3_def origin_def)
  have A3: "\<not> has_NaN (goFast_goto_x (fin3 origin) (fin3 origin))"
    using N by (simp add: p0)
  have B1: "goto_position (output_wp (calculateWaypoint h0 clk0 ?b)) = Vector3f 0 0 5"
    using B [THEN conjunct2, THEN conjunct2, THEN mp, OF b(4)]
    by (simp add: p0 st) (simp add: origin_def)
  have B2: "backOff_goto_x (fin3 origin) (fin3 (Vector3f 0 0 2)) (Fin 5) =
            xVector3f (Fin 0) (Fin 0) (Fin 5)"
    using B [THEN conjunct2, THEN conjunct1]
    by (simp add: p0 st) (simp add: fin3_def origin_def)
  have B3: "\<not> has_NaN (backOff_goto_x (fin3 origin) (fin3 (Vector3f 0 0 2)) (Fin 5))"
    using M by (simp add: p0 st)
  show ?thesis using A1 A2 A3 B1 B2 B3 by blast
qed

end
